theory Spec2Isabelle
  imports Complex_Main "HOL-Library.Multiset" "HOL-Library.Word"
begin

section \<open>Values carried by a session request\<close>

text \<open>
  The \<open>params\<close> member of a request is typed \<open>any\<close> in the source: it is whatever
  \<open>JSON.parse\<close> produced on the wallet's side of the relay, or \<open>undefined\<close> when the
  member is missing. The wallet code observes such a value through \<open>typeof\<close>,
  \<open>Array.isArray\<close>, truthiness and property access only.
\<close>

datatype jsval =
    JUndefined
  | JNull
  | JBool bool
  | JNum rat
  | JStr string
  | JArr "jsval list"
  | JObj "(string \<times> jsval) list"

fun typeof :: "jsval \<Rightarrow> string" where
  "typeof JUndefined = ''undefined''"
| "typeof JNull = ''object''"
| "typeof (JBool b) = ''boolean''"
| "typeof (JNum n) = ''number''"
| "typeof (JStr s) = ''string''"
| "typeof (JArr xs) = ''object''"
| "typeof (JObj kvs) = ''object''"

fun isArray :: "jsval \<Rightarrow> bool" where
  "isArray (JArr xs) = True"
| "isArray v = False"

text \<open>The condition of \<open>if (v)\<close>: everything is truthy except \<open>undefined\<close>, \<open>null\<close>,
  \<open>false\<close>, \<open>0\<close> and the empty string.\<close>

fun truthy :: "jsval \<Rightarrow> bool" where
  "truthy JUndefined = False"
| "truthy JNull = False"
| "truthy (JBool b) = b"
| "truthy (JNum n) = (n \<noteq> 0)"
| "truthy (JStr s) = (s \<noteq> [])"
| "truthy (JArr xs) = True"
| "truthy (JObj kvs) = True"

text \<open>\<open>v?.k\<close>: the member \<open>k\<close> of an object, \<open>undefined\<close> when \<open>v\<close> is \<open>null\<close> or
  \<open>undefined\<close>, when the object has no such member, and on the primitives and arrays
  (none of the member names read by the wallet is a prototype property). An object is
  the list of its own properties, each key once.\<close>

fun member :: "jsval \<Rightarrow> string \<Rightarrow> jsval" where
  "member (JObj kvs) k = (case map_of kvs k of Some v \<Rightarrow> v | None \<Rightarrow> JUndefined)"
| "member v k = JUndefined"

fun elements :: "jsval \<Rightarrow> jsval list" where
  "elements (JArr xs) = xs"
| "elements v = []"

subsection \<open>Template literals\<close>

definition digit :: "nat \<Rightarrow> char" where
  "digit d = char_of (48 + d)"

fun show_nat :: "nat \<Rightarrow> string" where
  "show_nat n = (if n < 10 then [digit n] else show_nat (n div 10) @ [digit (n mod 10)])"

declare show_nat.simps [simp del]

section \<open>Errors\<close>

text \<open>
  Every \<open>throw\<close> of the source is a value of \<open>error\<close>. \<open>getHederaError\<close> and
  \<open>getSdkError\<close> are kept as the calls the source makes (key and optional context);
  \<open>TypeError\<close> is the runtime's error for a member access on \<open>null\<close> or \<open>undefined\<close>;
  \<open>DecodeError\<close> and \<open>OtherError\<close> are what the codec, the ledger SDK and the signer
  may throw.
\<close>

datatype error =
    HederaError string "string option"
  | SdkError string
  | TypeError
  | DecodeError
  | OtherError string

definition getHederaError :: "string \<Rightarrow> string option \<Rightarrow> error" where
  "getHederaError key context = HederaError key context"

definition getSdkError :: "string \<Rightarrow> error" where
  "getSdkError key = SdkError key"

section \<open>Ledger objects\<close>

type_synonym bytes = "8 word list"

text \<open>Account and transaction identifiers are opaque SDK objects; the wallet only ever
  calls \<open>toString()\<close> on them, so each is represented by its canonical string.\<close>

datatype account_id = AccountId string
datatype transaction_id = TransactionId string

fun account_toString :: "account_id \<Rightarrow> string" where
  "account_toString (AccountId s) = s"

fun transaction_id_toString :: "transaction_id \<Rightarrow> string" where
  "transaction_id_toString (TransactionId s) = s"

record signer_signature =
  sig_publicKey :: bytes
  sig_signature :: bytes
  sig_accountId :: account_id

type_synonym signature_map = "(bytes \<times> bytes) list"

text \<open>A transaction as the handlers see it: the two nullable members they dereference,
  what \<open>getTransactionHash()\<close> settles to, the signatures collected so far, and the
  body bytes.\<close>

record transaction =
  transactionId :: "transaction_id option"
  nodeAccountIds :: "account_id list option"
  getTransactionHash :: "error + bytes"
  getSignatures :: signature_map
  bodyBytes :: bytes

record query =
  queryBytes :: bytes

datatype body =
    Transactions "transaction list"
  | Messages "bytes list"
  | QueryBody query

section \<open>The codec (\<open>../shared\<close>)\<close>

text \<open>
  The conversion functions imported from \<open>../shared\<close> and \<open>AccountId.fromString\<close> of
  the ledger SDK are parameters of the embedding: the parser and the handlers are
  verified for every codec.
\<close>

record codec =
  base64StringToTransaction :: "string \<Rightarrow> error + transaction"
  base64StringToQuery :: "string \<Rightarrow> error + query"
  base64StringToMessage :: "string \<Rightarrow> error + bytes list"
  Uint8ArrayToBase64String :: "bytes \<Rightarrow> string"
  signatureMapToBase64 :: "signature_map \<Rightarrow> string"
  accountIdFromString :: "string \<Rightarrow> error + account_id"

section \<open>Wire method names\<close>

text \<open>Modelled from the spec: the enum \<open>HederaJsonRpcMethod\<close> lives in
  \<open>src/lib/shared/methods.ts\<close>, which is not among the sources; its six values are the
  wire method names listed in the section on external interfaces.\<close>

definition GetNodeAddresses :: string where
  "GetNodeAddresses = ''hedera_getNodeAddresses''"

definition ExecuteTransaction :: string where
  "ExecuteTransaction = ''hedera_executeTransaction''"

definition SignMessage :: string where
  "SignMessage = ''hedera_signMessage''"

definition SignQueryAndSend :: string where
  "SignQueryAndSend = ''hedera_signQueryAndSend''"

definition SignAndExecuteTransaction :: string where
  "SignAndExecuteTransaction = ''hedera_signAndExecuteTransaction''"

definition SignTransaction :: string where
  "SignTransaction = ''hedera_signTransaction''"

definition HederaJsonRpcMethod :: "string list" where
  "HederaJsonRpcMethod =
     [GetNodeAddresses, ExecuteTransaction, SignMessage, SignQueryAndSend,
      SignAndExecuteTransaction, SignTransaction]"

section \<open>Request envelopes and descriptors\<close>

text \<open>\<open>Web3WalletTypes.SessionRequest\<close>: \<open>{id, topic, params: {request: {method,
  params}, chainId}}\<close>.\<close>

record session_request =
  ev_id :: int
  ev_topic :: string
  ev_chainId :: string
  ev_method :: string
  ev_params :: jsval

text \<open>The object returned by \<open>parseSessionRequest\<close>; an absent \<open>body\<close> or
  \<open>accountId\<close> is \<open>None\<close>.\<close>

record descriptor =
  d_method :: string
  d_chainId :: string
  d_id :: int
  d_topic :: string
  d_body :: "body option"
  d_accountId :: "account_id option"

section \<open>Validation and parsing\<close>

definition invalid_param_message :: "string \<Rightarrow> string \<Rightarrow> string \<Rightarrow> string" where
  "invalid_param_message name expectedType actual =
     ''Invalid paramameter value for '' @ name @ '', expected '' @ expectedType
       @ '' but got '' @ actual"

definition validateParam :: "string \<Rightarrow> jsval \<Rightarrow> string \<Rightarrow> error + unit" where
  "validateParam name v expectedType =
     (if expectedType = ''array'' \<and> isArray v then Inr ()
      else if typeof v = expectedType then Inr ()
      else Inl (getHederaError ''INVALID_PARAMS''
                  (Some (invalid_param_message name expectedType (typeof v)))))"

text \<open>\<open>xs.forEach((x, index) => this.validateParam(`name[${index}]`, x, 'string'))\<close>,
  started at \<open>index\<close>; the first throw ends the loop.\<close>

fun validateEach :: "string \<Rightarrow> nat \<Rightarrow> jsval list \<Rightarrow> error + unit" where
  "validateEach name index [] = Inr ()"
| "validateEach name index (x # xs) =
     (case validateParam (name @ ''['' @ show_nat index @ '']'') x ''string'' of
        Inl e \<Rightarrow> Inl e
      | Inr u \<Rightarrow> validateEach name (Suc index) xs)"

text \<open>\<open>xs.map(f)\<close> for an \<open>f\<close> that may throw: the first throw ends the map.\<close>

fun mapM :: "('a \<Rightarrow> error + 'b) \<Rightarrow> 'a list \<Rightarrow> error + 'b list" where
  "mapM f [] = Inr []"
| "mapM f (x # xs) =
     (case f x of
        Inl e \<Rightarrow> Inl e
      | Inr y \<Rightarrow> (case mapM f xs of Inl e \<Rightarrow> Inl e | Inr ys \<Rightarrow> Inr (y # ys)))"

text \<open>A codec function applied to a value that validation has shown to be a string.\<close>

fun onString :: "(string \<Rightarrow> error + 'a) \<Rightarrow> jsval \<Rightarrow> error + 'a" where
  "onString f (JStr s) = f s"
| "onString f v = Inl TypeError"

text \<open>
  The \<open>try\<close> block of \<open>parseSessionRequest\<close>. It assigns two local variables, \<open>body\<close>
  and \<open>signerAccountId\<close>, and may throw in between; the result is the error thrown (if
  any) together with the two variables as they stand when the block is left.
\<close>

type_synonym parse_state = "error option \<times> body option \<times> account_id option"

definition parseTransactions ::
  "codec \<Rightarrow> jsval list \<Rightarrow> account_id option \<Rightarrow> parse_state" where
  "parseTransactions cdc xs signer =
     (case mapM (onString (base64StringToTransaction cdc)) xs of
        Inl e \<Rightarrow> (Some e, None, signer)
      | Inr txs \<Rightarrow> (None, Some (Transactions txs), signer))"

definition parseSignedArray :: "codec \<Rightarrow> jsval \<Rightarrow> parse_state" where
  "parseSignedArray cdc params =
     (case validateParam ''signerAccountId'' (member params ''signerAccountId'') ''string'' of
        Inl e \<Rightarrow> (Some e, None, None)
      | Inr u \<Rightarrow>
     (case validateParam ''transaction'' (member params ''transaction'') ''array'' of
        Inl e \<Rightarrow> (Some e, None, None)
      | Inr u \<Rightarrow>
     (case validateEach ''transaction'' 0 (elements (member params ''transaction'')) of
        Inl e \<Rightarrow> (Some e, None, None)
      | Inr u \<Rightarrow>
     (case onString (accountIdFromString cdc) (member params ''signerAccountId'') of
        Inl e \<Rightarrow> (Some e, None, None)
      | Inr a \<Rightarrow>
          parseTransactions cdc (elements (member params ''transaction'')) (Some a)))))"

text \<open>The cases of the \<open>switch\<close>, one definition per case body (the last two cases
  have the same body, \<open>parseSignedArray\<close>).\<close>

definition parseGetNodeAddresses :: "jsval \<Rightarrow> parse_state" where
  "parseGetNodeAddresses params =
     (if truthy params then (Some (getHederaError ''INVALID_PARAMS'' None), None, None)
      else (None, None, None))"

definition parseExecuteTransaction :: "codec \<Rightarrow> jsval \<Rightarrow> parse_state" where
  "parseExecuteTransaction cdc params =
     (case validateParam ''signedTransaction'' (member params ''signedTransaction'') ''array'' of
        Inl e \<Rightarrow> (Some e, None, None)
      | Inr u \<Rightarrow>
     (case validateEach ''signedTransaction'' 0
             (elements (member params ''signedTransaction'')) of
        Inl e \<Rightarrow> (Some e, None, None)
      | Inr u \<Rightarrow>
          parseTransactions cdc (elements (member params ''signedTransaction'')) None))"

definition parseSignMessage :: "codec \<Rightarrow> jsval \<Rightarrow> parse_state" where
  "parseSignMessage cdc params =
     (case validateParam ''signerAccountId'' (member params ''signerAccountId'') ''string'' of
        Inl e \<Rightarrow> (Some e, None, None)
      | Inr u \<Rightarrow>
     (case validateParam ''message'' (member params ''message'') ''string'' of
        Inl e \<Rightarrow> (Some e, None, None)
      | Inr u \<Rightarrow>
     (case onString (accountIdFromString cdc) (member params ''signerAccountId'') of
        Inl e \<Rightarrow> (Some e, None, None)
      | Inr a \<Rightarrow>
     (case onString (base64StringToMessage cdc) (member params ''message'') of
        Inl e \<Rightarrow> (Some e, None, Some a)
      | Inr ms \<Rightarrow> (None, Some (Messages ms), Some a)))))"

definition parseSignQueryAndSend :: "codec \<Rightarrow> jsval \<Rightarrow> parse_state" where
  "parseSignQueryAndSend cdc params =
     (case validateParam ''signerAccountId'' (member params ''signerAccountId'') ''string'' of
        Inl e \<Rightarrow> (Some e, None, None)
      | Inr u \<Rightarrow>
     (case validateParam ''query'' (member params ''query'') ''string'' of
        Inl e \<Rightarrow> (Some e, None, None)
      | Inr u \<Rightarrow>
     (case onString (accountIdFromString cdc) (member params ''signerAccountId'') of
        Inl e \<Rightarrow> (Some e, None, None)
      | Inr a \<Rightarrow>
     (case onString (base64StringToQuery cdc) (member params ''query'') of
        Inl e \<Rightarrow> (Some e, None, Some a)
      | Inr q \<Rightarrow> (None, Some (QueryBody q), Some a)))))"

definition parseTry :: "codec \<Rightarrow> string \<Rightarrow> jsval \<Rightarrow> parse_state" where
  "parseTry cdc method params =
     (if method = GetNodeAddresses then parseGetNodeAddresses params
      else if method = ExecuteTransaction then parseExecuteTransaction cdc params
      else if method = SignMessage then parseSignMessage cdc params
      else if method = SignQueryAndSend then parseSignQueryAndSend cdc params
      else if method = SignAndExecuteTransaction then parseSignedArray cdc params
      else if method = SignTransaction then parseSignedArray cdc params
      else (Some (getSdkError ''INVALID_METHOD''), None, None))"

definition parseSessionRequest ::
  "codec \<Rightarrow> session_request \<Rightarrow> bool \<Rightarrow> error + descriptor" where
  "parseSessionRequest cdc event shouldThrow =
     (case parseTry cdc (ev_method event) (ev_params event) of
        (err, body, signerAccountId) \<Rightarrow>
          (case (err, shouldThrow) of
             (Some e, True) \<Rightarrow> Inl e
           | _ \<Rightarrow>
               Inr \<lparr>d_method = ev_method event, d_chainId = ev_chainId event,
                    d_id = ev_id event, d_topic = ev_topic event,
                    d_body = body, d_accountId = signerAccountId\<rparr>))"

section \<open>The parameter schema of the spec\<close>

text \<open>
  The source validates the parameters inline, method by method. The spec describes the
  same checks as a registry: per method an ordered list of fields, each either a string
  or an array of strings, checked in order, arrays element by element. The registry and
  the first violation it finds are written here from the spec's words, to be compared
  with what \<open>parseSessionRequest\<close> throws.
\<close>

datatype shape = StringShape | ArrayOfStrings

definition schemaFor :: "string \<Rightarrow> (string \<times> shape) list option" where
  "schemaFor method =
     (if method = GetNodeAddresses then Some []
      else if method = ExecuteTransaction then Some [(''signedTransaction'', ArrayOfStrings)]
      else if method = SignMessage then
        Some [(''signerAccountId'', StringShape), (''message'', StringShape)]
      else if method = SignQueryAndSend then
        Some [(''signerAccountId'', StringShape), (''query'', StringShape)]
      else if method = SignAndExecuteTransaction then
        Some [(''signerAccountId'', StringShape), (''transaction'', ArrayOfStrings)]
      else if method = SignTransaction then
        Some [(''signerAccountId'', StringShape), (''transaction'', ArrayOfStrings)]
      else None)"

text \<open>The first element that is not a string, with its zero-based index (counted from
  \<open>index\<close>).\<close>

fun firstNonString :: "nat \<Rightarrow> jsval list \<Rightarrow> (nat \<times> jsval) option" where
  "firstNonString index [] = None"
| "firstNonString index (x # xs) =
     (if typeof x = ''string'' then firstNonString (Suc index) xs else Some (index, x))"

text \<open>The first violation of a schema: the name of the offending field (with the index
  for an array element), the expected shape and the actual type.\<close>

fun violation :: "(string \<times> shape) list \<Rightarrow> jsval \<Rightarrow> (string \<times> string \<times> string) option" where
  "violation [] params = None"
| "violation ((field, StringShape) # schema) params =
     (if typeof (member params field) = ''string'' then violation schema params
      else Some (field, ''string'', typeof (member params field)))"
| "violation ((field, ArrayOfStrings) # schema) params =
     (if \<not> isArray (member params field)
      then Some (field, ''array'', typeof (member params field))
      else (case firstNonString 0 (elements (member params field)) of
              Some (index, x) \<Rightarrow>
                Some (field @ ''['' @ show_nat index @ '']'', ''string'', typeof x)
            | None \<Rightarrow> violation schema params))"

section \<open>The session transport and the signer\<close>

text \<open>
  A response as handed to \<open>respondSessionRequest\<close>: \<open>{topic, response: {id, jsonrpc:
  '2.0', result}}\<close> or \<open>{topic, response: {id, jsonrpc: '2.0', error}}\<close>. The constant
  \<open>jsonrpc\<close> member is left out.
\<close>

record transaction_result =
  r_transactionId :: string
  r_nodeId :: string
  r_transactionHash :: string
  r_precheckCode :: int

datatype rpc_result =
    ExecuteTransactionResult "transaction_result list"
  | SignMessageResult string
  | SignTransactionResult "string list"

record rpc_error =
  err_code :: int
  err_message :: string

datatype json_rpc_response =
    JsonRpcResult int rpc_result
  | JsonRpcError int rpc_error

record respond_params =
  rp_topic :: string
  rp_response :: json_rpc_response

text \<open>
  What the handlers do to the outside: the responses handed to the session transport,
  in order, and the transactions handed to \<open>signer.call\<close>. The promises of one batch run
  concurrently, so the submissions are a multiset, not a sequence.
\<close>

record world =
  sent :: "respond_params list"
  submitted :: "transaction multiset"

type_synonym 'a io = "world \<Rightarrow> (error + 'a) \<times> world"

text \<open>\<open>respondSessionRequest\<close> belongs to the session transport (the base class
  \<open>Web3Wallet\<close>); its own failures are outside this code, and it is modelled as the
  transport accepting the response.\<close>

definition respondSessionRequest :: "respond_params \<Rightarrow> unit io" where
  "respondSessionRequest r w = (Inr (), w\<lparr>sent := sent w @ [r]\<rparr>)"

text \<open>\<open>signer.call\<close> either resolves, or rejects with the ledger's
  \<open>PrecheckStatusError\<close> (carrying \<open>status._code\<close>), or rejects with anything else.\<close>

datatype call_outcome =
    Resolved
  | PrecheckStatusError int
  | Rejected error

record signer =
  call :: "transaction \<Rightarrow> call_outcome"
  signTransaction :: "transaction \<Rightarrow> error + transaction"
  sign :: "bytes list \<Rightarrow> error + signer_signature list"

text \<open>
  \<open>await Promise.all(xs.map(f))\<close>: every promise is started and runs to its end, whatever
  the others do, so the effects of all of them take place; the result is the list of
  their values, or a rejection as soon as one of them rejects. Which rejection wins
  when several promises reject depends on timing; the model reports the first in index
  order.
\<close>

fun promiseAllMap :: "('a \<Rightarrow> 'b io) \<Rightarrow> 'a list \<Rightarrow> 'b list io" where
  "promiseAllMap f [] w = (Inr [], w)"
| "promiseAllMap f (x # xs) w =
     (case f x w of (r, w1) \<Rightarrow>
        (case promiseAllMap f xs w1 of (rs, w2) \<Rightarrow>
           (case r of
              Inl e \<Rightarrow> (Inl e, w2)
            | Inr y \<Rightarrow> (case rs of Inl e \<Rightarrow> (Inl e, w2) | Inr ys \<Rightarrow> (Inr (y # ys), w2)))))"

definition pure :: "(error + 'a) \<Rightarrow> 'a io" where
  "pure r w = (r, w)"

section \<open>Handlers\<close>

text \<open>The \<open>try\<close>/\<open>catch\<close> around \<open>signer.call\<close>: the catch clause logs whatever was
  thrown and overwrites \<open>precheckCode\<close> only for a \<open>PrecheckStatusError\<close>.\<close>

fun precheckCodeOf :: "call_outcome \<Rightarrow> int" where
  "precheckCodeOf Resolved = 0"
| "precheckCodeOf (PrecheckStatusError c) = c"
| "precheckCodeOf (Rejected e) = 0"

text \<open>The arrow function mapped over the batch by \<open>hedera_executeTransaction\<close> and
  \<open>hedera_signAndExecuteTransaction\<close>. The non-null assertions \<open>!\<close> are erased by the
  compiler: a \<open>null\<close> member, or an empty node list, makes the following \<open>toString()\<close>
  throw a \<open>TypeError\<close>.\<close>

definition executeOne :: "codec \<Rightarrow> signer \<Rightarrow> transaction \<Rightarrow> transaction_result io" where
  "executeOne cdc sg tx w =
     (case transactionId tx of
        None \<Rightarrow> (Inl TypeError, w)
      | Some tid \<Rightarrow>
     (case nodeAccountIds tx of
        None \<Rightarrow> (Inl TypeError, w)
      | Some [] \<Rightarrow> (Inl TypeError, w)
      | Some (node # others) \<Rightarrow>
     (case getTransactionHash tx of
        Inl e \<Rightarrow> (Inl e, w)
      | Inr h \<Rightarrow>
          (Inr \<lparr>r_transactionId = transaction_id_toString tid,
                r_nodeId = account_toString node,
                r_transactionHash = Uint8ArrayToBase64String cdc h,
                r_precheckCode = precheckCodeOf (call sg tx)\<rparr>,
           w\<lparr>submitted := add_mset tx (submitted w)\<rparr>))))"

definition hedera_executeTransaction ::
  "codec \<Rightarrow> signer \<Rightarrow> int \<Rightarrow> string \<Rightarrow> transaction list \<Rightarrow> unit io" where
  "hedera_executeTransaction cdc sg i topic body w =
     (case promiseAllMap (executeOne cdc sg) body w of
        (Inl e, w1) \<Rightarrow> (Inl e, w1)
      | (Inr result, w1) \<Rightarrow>
          respondSessionRequest
            \<lparr>rp_topic = topic,
             rp_response = JsonRpcResult i (ExecuteTransactionResult result)\<rparr> w1)"

definition hedera_signMessage ::
  "codec \<Rightarrow> signer \<Rightarrow> int \<Rightarrow> string \<Rightarrow> bytes list \<Rightarrow> unit io" where
  "hedera_signMessage cdc sg i topic body w =
     (case sign sg body of
        Inl e \<Rightarrow> (Inl e, w)
      | Inr [] \<Rightarrow> (Inl TypeError, w)
      | Inr (entry # others) \<Rightarrow>
          respondSessionRequest
            \<lparr>rp_topic = topic,
             rp_response =
               JsonRpcResult i
                 (SignMessageResult (Uint8ArrayToBase64String cdc (sig_signature entry)))\<rparr> w)"

definition hedera_signAndExecuteTransaction ::
  "codec \<Rightarrow> signer \<Rightarrow> int \<Rightarrow> string \<Rightarrow> transaction list \<Rightarrow> unit io" where
  "hedera_signAndExecuteTransaction cdc sg i topic body w =
     (case promiseAllMap (\<lambda>tx. pure (signTransaction sg tx)) body w of
        (Inl e, w1) \<Rightarrow> (Inl e, w1)
      | (Inr signedTransactions, w1) \<Rightarrow>
     (case promiseAllMap (executeOne cdc sg) signedTransactions w1 of
        (Inl e, w2) \<Rightarrow> (Inl e, w2)
      | (Inr result, w2) \<Rightarrow>
          respondSessionRequest
            \<lparr>rp_topic = topic,
             rp_response = JsonRpcResult i (ExecuteTransactionResult result)\<rparr> w2))"

definition hedera_signTransaction ::
  "codec \<Rightarrow> signer \<Rightarrow> int \<Rightarrow> string \<Rightarrow> transaction list \<Rightarrow> unit io" where
  "hedera_signTransaction cdc sg i topic body w =
     (case promiseAllMap (\<lambda>tx. pure (signTransaction sg tx)) body w of
        (Inl e, w1) \<Rightarrow> (Inl e, w1)
      | (Inr transactions, w1) \<Rightarrow>
          respondSessionRequest
            \<lparr>rp_topic = topic,
             rp_response =
               JsonRpcResult i
                 (SignTransactionResult
                    (map (\<lambda>t. signatureMapToBase64 cdc (getSignatures t)) transactions))\<rparr> w1)"

section \<open>Rejecting a request\<close>

definition rejectSessionRequest :: "codec \<Rightarrow> session_request \<Rightarrow> rpc_error \<Rightarrow> unit io" where
  "rejectSessionRequest cdc event err w =
     (case parseSessionRequest cdc event False of
        Inl e \<Rightarrow> (Inl e, w)
      | Inr d \<Rightarrow>
          respondSessionRequest
            \<lparr>rp_topic = d_topic d, rp_response = JsonRpcError (d_id d) err\<rparr> w)"

section \<open>Base64\<close>

text \<open>
  Modelled from the spec: the codec functions of \<open>src/lib/shared/utils.ts\<close> are not
  among the sources. The spec describes \<open>encodeBytes\<close> as a total conversion of bytes
  to base64 text and \<open>decodeMessage\<close> as base64 decoding that fails with \<open>DecodeError\<close>
  on invalid base64, the two forming a lossless pair. The model is the base64 of RFC 4648
  with the standard alphabet and padding; text that no byte string encodes to
  (a character outside the alphabet, a length that is not a multiple of four, misplaced
  padding, non-zero bits under the padding) is invalid.
\<close>

definition sextetChar :: "nat \<Rightarrow> char" where
  "sextetChar n =
     (if n < 26 then char_of (65 + n)
      else if n < 52 then char_of (71 + n)
      else if n < 62 then char_of (n - 4)
      else if n = 62 then CHR ''+''
      else CHR ''/'')"

definition charSextet :: "char \<Rightarrow> nat option" where
  "charSextet c =
     (let n = (of_char c :: nat) in
      if 65 \<le> n \<and> n \<le> 90 then Some (n - 65)
      else if 97 \<le> n \<and> n \<le> 122 then Some (n - 71)
      else if 48 \<le> n \<and> n \<le> 57 then Some (n + 4)
      else if n = 43 then Some 62
      else if n = 47 then Some 63
      else None)"

text \<open>Three bytes are 24 bits, regrouped into four sextets; and back.\<close>

definition sextet1 :: "8 word \<Rightarrow> nat" where
  "sextet1 a = unat a div 4"

definition sextet2 :: "8 word \<Rightarrow> 8 word \<Rightarrow> nat" where
  "sextet2 a b = unat a mod 4 * 16 + unat b div 16"

definition sextet3 :: "8 word \<Rightarrow> 8 word \<Rightarrow> nat" where
  "sextet3 b c = unat b mod 16 * 4 + unat c div 64"

definition sextet4 :: "8 word \<Rightarrow> nat" where
  "sextet4 c = unat c mod 64"

definition byte1 :: "nat \<Rightarrow> nat \<Rightarrow> 8 word" where
  "byte1 s1 s2 = of_nat (s1 * 4 + s2 div 16)"

definition byte2 :: "nat \<Rightarrow> nat \<Rightarrow> 8 word" where
  "byte2 s2 s3 = of_nat (s2 mod 16 * 16 + s3 div 4)"

definition byte3 :: "nat \<Rightarrow> nat \<Rightarrow> 8 word" where
  "byte3 s3 s4 = of_nat (s3 mod 4 * 64 + s4)"

text \<open>A last group of one or two bytes is filled up with zero bits and padded with
  \<open>=\<close>.\<close>

fun encodeBytes :: "bytes \<Rightarrow> string" where
  "encodeBytes (a # b # c # rest) =
     sextetChar (sextet1 a) # sextetChar (sextet2 a b) # sextetChar (sextet3 b c)
     # sextetChar (sextet4 c) # encodeBytes rest"
| "encodeBytes [a, b] =
     [sextetChar (sextet1 a), sextetChar (sextet2 a b), sextetChar (sextet3 b 0), CHR ''='']"
| "encodeBytes [a] =
     [sextetChar (sextet1 a), sextetChar (sextet2 a 0), CHR ''='', CHR ''='']"
| "encodeBytes [] = []"

text \<open>The last group of four characters, which ends in one or two padding characters;
  the bits that the padding leaves unused must be zero.\<close>

definition decodePadded :: "char \<Rightarrow> char \<Rightarrow> char \<Rightarrow> error + bytes" where
  "decodePadded c1 c2 c3 =
     (case (charSextet c1, charSextet c2) of
        (Some s1, Some s2) \<Rightarrow>
          (if c3 = CHR ''='' then
             (if s2 mod 16 = 0 then Inr [byte1 s1 s2] else Inl DecodeError)
           else
             (case charSextet c3 of
                Some s3 \<Rightarrow>
                  (if s3 mod 4 = 0 then Inr [byte1 s1 s2, byte2 s2 s3] else Inl DecodeError)
              | None \<Rightarrow> Inl DecodeError))
      | _ \<Rightarrow> Inl DecodeError)"

fun decodeMessage :: "string \<Rightarrow> error + bytes" where
  "decodeMessage [] = Inr []"
| "decodeMessage (c1 # c2 # c3 # c4 # rest) =
     (if c4 = CHR ''='' then
        (if rest = [] then decodePadded c1 c2 c3 else Inl DecodeError)
      else
        (case (charSextet c1, charSextet c2, charSextet c3, charSextet c4) of
           (Some s1, Some s2, Some s3, Some s4) \<Rightarrow>
             (case decodeMessage rest of
                Inl e \<Rightarrow> Inl e
              | Inr bs \<Rightarrow> Inr (byte1 s1 s2 # byte2 s2 s3 # byte3 s3 s4 # bs))
         | _ \<Rightarrow> Inl DecodeError))"
| "decodeMessage cs = Inl DecodeError"

text \<open>Modelled from the spec: a transaction, a query or a raw message is encoded as
  the base64 text of its canonical wire bytes and decoded by parsing the decoded bytes.
  The serialiser \<open>toBytes\<close> and the parser \<open>fromBytes\<close> belong to the ledger SDK and
  are parameters.\<close>

definition encodeObject :: "('a \<Rightarrow> bytes) \<Rightarrow> 'a \<Rightarrow> string" where
  "encodeObject toBytes x = encodeBytes (toBytes x)"

definition decodeObject :: "(bytes \<Rightarrow> error + 'a) \<Rightarrow> string \<Rightarrow> error + 'a" where
  "decodeObject fromBytes s =
     (case decodeMessage s of Inl e \<Rightarrow> Inl e | Inr bs \<Rightarrow> fromBytes bs)"

section \<open>A codec and a signer to run the code on\<close>

text \<open>
  A codec instance for evaluating the parser and the handlers on concrete requests.
  Payloads are base64 as above; the SDK's parsers are stand-ins that accept every
  non-empty byte string, and \<open>AccountId.fromString\<close> accepts non-empty strings of
  digits and dots.
\<close>

definition demoTransaction :: "bytes \<Rightarrow> transaction" where
  "demoTransaction bs =
     \<lparr>transactionId = Some (TransactionId ''0.0.12345@1700000000.0''),
      nodeAccountIds = Some [AccountId ''0.0.3''],
      getTransactionHash = Inr bs,
      getSignatures = [],
      bodyBytes = bs\<rparr>"

definition demoCodec :: codec where
  "demoCodec =
     \<lparr>base64StringToTransaction =
        decodeObject (\<lambda>bs. if bs = [] then Inl DecodeError else Inr (demoTransaction bs)),
      base64StringToQuery =
        decodeObject (\<lambda>bs. if bs = [] then Inl DecodeError else Inr \<lparr>queryBytes = bs\<rparr>),
      base64StringToMessage = decodeObject (\<lambda>bs. Inr [bs]),
      Uint8ArrayToBase64String = encodeBytes,
      signatureMapToBase64 = (\<lambda>m. encodeBytes (concat (map (\<lambda>(k, s). k @ s) m))),
      accountIdFromString =
        (\<lambda>s. if s \<noteq> [] \<and> list_all (\<lambda>c. c \<in> set ''0123456789.'') s
             then Inr (AccountId s) else Inl (OtherError ''invalid account id''))\<rparr>"

text \<open>A signer that adds the signature \<open>[1, 2, 3]\<close> to a transaction and signs a message
  \<open>m\<close> with \<open>1 # m\<close>, and a ledger that
  accepts a transaction whose body starts with byte 0, rejects one that starts with
  byte 1 at precheck with status code 7, and is unreachable otherwise.\<close>

definition demoSigner :: signer where
  "demoSigner =
     \<lparr>call =
        (\<lambda>tx. case bodyBytes tx of
                 [] \<Rightarrow> Rejected (OtherError ''network'')
               | b # bs \<Rightarrow>
                   if b = 0 then Resolved
                   else if b = 1 then PrecheckStatusError 7
                   else Rejected (OtherError ''network'')),
      signTransaction = (\<lambda>tx. Inr (tx\<lparr>getSignatures := getSignatures tx @ [([9], [1, 2, 3])]\<rparr>)),
      sign =
        (\<lambda>ms. Inr (map (\<lambda>m. \<lparr>sig_publicKey = [9], sig_signature = 1 # m,
                                 sig_accountId = AccountId ''0.0.12345''\<rparr>) ms))\<rparr>"

definition emptyWorld :: world where
  "emptyWorld = \<lparr>sent = [], submitted = {#}\<rparr>"

section \<open>What the handlers require of a transaction\<close>

text \<open>The two members the handlers dereference are set, and the node list is not
  empty.\<close>

definition hasIds :: "transaction \<Rightarrow> bool" where
  "hasIds tx =
     (transactionId tx \<noteq> None \<and>
      (case nodeAccountIds tx of Some (node # others) \<Rightarrow> True | _ \<Rightarrow> False))"

text \<open>The arrow function of the two executing handlers reaches \<open>signer.call\<close>: the
  members are set and the transaction hash can be computed.\<close>

definition submittable :: "transaction \<Rightarrow> bool" where
  "submittable tx =
     (hasIds tx \<and> (case getTransactionHash tx of Inr h \<Rightarrow> True | Inl e \<Rightarrow> False))"

text \<open>The per-transaction result record as the spec describes it: the transaction's
  id, its first node, its hash in base64, and the precheck status code (0 unless the
  submission was rejected at precheck).\<close>

definition resultRecord :: "codec \<Rightarrow> signer \<Rightarrow> transaction \<Rightarrow> transaction_result" where
  "resultRecord cdc sg tx =
     \<lparr>r_transactionId =
        (case transactionId tx of Some tid \<Rightarrow> transaction_id_toString tid | None \<Rightarrow> []),
      r_nodeId =
        (case nodeAccountIds tx of Some (node # others) \<Rightarrow> account_toString node | _ \<Rightarrow> []),
      r_transactionHash =
        (case getTransactionHash tx of Inr h \<Rightarrow> Uint8ArrayToBase64String cdc h | Inl e \<Rightarrow> []),
      r_precheckCode =
        (case call sg tx of Resolved \<Rightarrow> 0 | PrecheckStatusError c \<Rightarrow> c | Rejected e \<Rightarrow> 0)\<rparr>"

section \<open>What a swallowed error leaves behind\<close>

text \<open>The signer account of a request: the parsed \<open>signerAccountId\<close> of one of the four
  methods that declare it, when the parameters pass validation and the account id
  parses; otherwise none.\<close>

definition signerAccountOf :: "codec \<Rightarrow> string \<Rightarrow> jsval \<Rightarrow> account_id option" where
  "signerAccountOf cdc method params =
     (if method \<in> set [SignMessage, SignQueryAndSend, SignAndExecuteTransaction, SignTransaction]
         \<and> (case schemaFor method of
               Some schema \<Rightarrow> violation schema params = None
             | None \<Rightarrow> False)
      then (case onString (accountIdFromString cdc) (member params ''signerAccountId'') of
              Inl e \<Rightarrow> None
            | Inr acc \<Rightarrow> Some acc)
      else None)"

text \<open>The error thrown by decoding the payload of a request (the message, the query or
  the transactions), if decoding it throws.\<close>

definition payloadError :: "codec \<Rightarrow> string \<Rightarrow> jsval \<Rightarrow> error option" where
  "payloadError cdc method params =
     (if method = SignMessage then
        (case onString (base64StringToMessage cdc) (member params ''message'') of
           Inl e \<Rightarrow> Some e | Inr ms \<Rightarrow> None)
      else if method = SignQueryAndSend then
        (case onString (base64StringToQuery cdc) (member params ''query'') of
           Inl e \<Rightarrow> Some e | Inr q \<Rightarrow> None)
      else if method = SignAndExecuteTransaction \<or> method = SignTransaction then
        (case mapM (onString (base64StringToTransaction cdc))
                (elements (member params ''transaction'')) of
           Inl e \<Rightarrow> Some e | Inr txs \<Rightarrow> None)
      else None)"

section \<open>Properties of the parser\<close>

lemmas method_defs =
  GetNodeAddresses_def ExecuteTransaction_def SignMessage_def SignQueryAndSend_def
  SignAndExecuteTransaction_def SignTransaction_def

lemma parseSessionRequest_True:
  "parseSessionRequest cdc event True =
     (case fst (parseTry cdc (ev_method event) (ev_params event)) of
        Some e \<Rightarrow> Inl e
      | None \<Rightarrow>
          Inr \<lparr>d_method = ev_method event, d_chainId = ev_chainId event,
               d_id = ev_id event, d_topic = ev_topic event,
               d_body = fst (snd (parseTry cdc (ev_method event) (ev_params event))),
               d_accountId = snd (snd (parseTry cdc (ev_method event) (ev_params event)))\<rparr>)"
  by (simp add: parseSessionRequest_def split: prod.splits option.splits)

lemma parseSessionRequest_False:
  "parseSessionRequest cdc event False =
     Inr \<lparr>d_method = ev_method event, d_chainId = ev_chainId event,
          d_id = ev_id event, d_topic = ev_topic event,
          d_body = fst (snd (parseTry cdc (ev_method event) (ev_params event))),
          d_accountId = snd (snd (parseTry cdc (ev_method event) (ev_params event)))\<rparr>"
  by (simp add: parseSessionRequest_def split: prod.splits option.splits)

lemma parseTry_unknown:
  "m \<notin> set HederaJsonRpcMethod \<Longrightarrow>
     parseTry cdc m p = (Some (getSdkError ''INVALID_METHOD''), None, None)"
  by (simp add: parseTry_def HederaJsonRpcMethod_def)

lemma parseTransactions_error:
  "fst (parseTransactions cdc xs a) = Some e \<Longrightarrow> fst (snd (parseTransactions cdc xs a)) = None"
  by (simp add: parseTransactions_def split: sum.splits)

lemma parseTransactions_account:
  "snd (snd (parseTransactions cdc xs a)) = a"
  by (simp add: parseTransactions_def split: sum.splits)

lemma parseSignedArray_error:
  "fst (parseSignedArray cdc p) = Some e \<Longrightarrow> fst (snd (parseSignedArray cdc p)) = None"
  by (simp add: parseSignedArray_def parseTransactions_error split: sum.splits)

lemma parseSignedArray_account:
  "snd (snd (parseSignedArray cdc p)) = Some a \<Longrightarrow>
     onString (accountIdFromString cdc) (member p ''signerAccountId'') = Inr a"
  by (simp add: parseSignedArray_def parseTransactions_account split: sum.splits)

lemma parseExecuteTransaction_error:
  "fst (parseExecuteTransaction cdc p) = Some e \<Longrightarrow> fst (snd (parseExecuteTransaction cdc p)) = None"
  by (simp add: parseExecuteTransaction_def parseTransactions_error split: sum.splits)

lemma parseExecuteTransaction_account:
  "snd (snd (parseExecuteTransaction cdc p)) = None"
  by (simp add: parseExecuteTransaction_def parseTransactions_account split: sum.splits)

lemma parseSignMessage_error:
  "fst (parseSignMessage cdc p) = Some e \<Longrightarrow> fst (snd (parseSignMessage cdc p)) = None"
  by (simp add: parseSignMessage_def split: sum.splits)

lemma parseSignMessage_account:
  "snd (snd (parseSignMessage cdc p)) = Some a \<Longrightarrow>
     onString (accountIdFromString cdc) (member p ''signerAccountId'') = Inr a"
  by (simp add: parseSignMessage_def split: sum.splits)

lemma parseSignQueryAndSend_error:
  "fst (parseSignQueryAndSend cdc p) = Some e \<Longrightarrow> fst (snd (parseSignQueryAndSend cdc p)) = None"
  by (simp add: parseSignQueryAndSend_def split: sum.splits)

lemma parseSignQueryAndSend_account:
  "snd (snd (parseSignQueryAndSend cdc p)) = Some a \<Longrightarrow>
     onString (accountIdFromString cdc) (member p ''signerAccountId'') = Inr a"
  by (simp add: parseSignQueryAndSend_def split: sum.splits)

lemma parseTry_error_body:
  "fst (parseTry cdc m p) = Some e \<Longrightarrow> fst (snd (parseTry cdc m p)) = None"
  by (simp add: parseTry_def parseSignedArray_error parseExecuteTransaction_error
      parseSignMessage_error parseSignQueryAndSend_error parseGetNodeAddresses_def
      method_defs split: if_splits)

lemma parseTry_account:
  "snd (snd (parseTry cdc m p)) = Some a \<Longrightarrow>
     m \<in> set [SignMessage, SignQueryAndSend, SignAndExecuteTransaction, SignTransaction] \<and>
     onString (accountIdFromString cdc) (member p ''signerAccountId'') = Inr a"
  by (simp add: parseTry_def parseSignedArray_account parseExecuteTransaction_account
      parseSignMessage_account parseSignQueryAndSend_account parseGetNodeAddresses_def
      method_defs split: if_splits)

lemma charSextet_bang: "charSextet CHR ''!'' = None"
  by (simp add: charSextet_def)

lemma demo_accountId: "accountIdFromString demoCodec ''0.0.12345'' = Inr (AccountId ''0.0.12345'')"
  by (simp add: demoCodec_def)

lemma demo_query_bangs: "base64StringToQuery demoCodec ''!!!!'' = Inl DecodeError"
  by (simp add: demoCodec_def decodeObject_def charSextet_bang)

lemma badQuery_parseTry:
  "parseTry demoCodec SignQueryAndSend
      (JObj [(''signerAccountId'', JStr ''0.0.12345''), (''query'', JStr ''!!!!'')])
   = (Some DecodeError, None, Some (AccountId ''0.0.12345''))"
  by (simp add: parseTry_def method_defs parseSignQueryAndSend_def validateParam_def
      demo_accountId demo_query_bangs)

lemma validateParam_string:
  "validateParam name v ''string'' =
     (if typeof v = ''string'' then Inr ()
      else Inl (getHederaError ''INVALID_PARAMS''
                 (Some (invalid_param_message name ''string'' (typeof v)))))"
  by (simp add: validateParam_def)

lemma typeof_not_array: "typeof v \<noteq> ''array''"
  by (cases v) simp_all

lemma validateParam_array:
  "validateParam name v ''array'' =
     (if isArray v then Inr ()
      else Inl (getHederaError ''INVALID_PARAMS''
                 (Some (invalid_param_message name ''array'' (typeof v)))))"
  by (simp add: validateParam_def typeof_not_array)

lemma validateEach_firstNonString:
  "validateEach name i xs =
     (case firstNonString i xs of
        None \<Rightarrow> Inr ()
      | Some (j, x) \<Rightarrow>
          Inl (getHederaError ''INVALID_PARAMS''
                (Some (invalid_param_message (name @ ''['' @ show_nat j @ '']'') ''string''
                         (typeof x)))))"
  by (induction xs arbitrary: i) (simp_all add: validateParam_string)

lemma parseExecuteTransaction_violation:
  assumes "violation [(''signedTransaction'', ArrayOfStrings)] p = Some (name, expected, actual)"
  shows "fst (parseExecuteTransaction cdc p) =
           Some (getHederaError ''INVALID_PARAMS''
                  (Some (invalid_param_message name expected actual)))"
  using assms
  by (auto simp: parseExecuteTransaction_def validateParam_array validateEach_firstNonString
      split: if_splits option.splits)

lemma parseSignMessage_violation:
  assumes "violation [(''signerAccountId'', StringShape), (''message'', StringShape)] p
             = Some (name, expected, actual)"
  shows "fst (parseSignMessage cdc p) =
           Some (getHederaError ''INVALID_PARAMS''
                  (Some (invalid_param_message name expected actual)))"
  using assms
  by (auto simp: parseSignMessage_def validateParam_string split: if_splits)

lemma parseSignQueryAndSend_violation:
  assumes "violation [(''signerAccountId'', StringShape), (''query'', StringShape)] p
             = Some (name, expected, actual)"
  shows "fst (parseSignQueryAndSend cdc p) =
           Some (getHederaError ''INVALID_PARAMS''
                  (Some (invalid_param_message name expected actual)))"
  using assms
  by (auto simp: parseSignQueryAndSend_def validateParam_string split: if_splits)

lemma parseSignedArray_violation:
  assumes "violation [(''signerAccountId'', StringShape), (''transaction'', ArrayOfStrings)] p
             = Some (name, expected, actual)"
  shows "fst (parseSignedArray cdc p) =
           Some (getHederaError ''INVALID_PARAMS''
                  (Some (invalid_param_message name expected actual)))"
  using assms
  by (auto simp: parseSignedArray_def validateParam_string validateParam_array
      validateEach_firstNonString split: if_splits option.splits)

lemma parseTry_violation:
  assumes "schemaFor m = Some schema"
    and "violation schema p = Some (name, expected, actual)"
  shows "fst (parseTry cdc m p) =
           Some (getHederaError ''INVALID_PARAMS''
                  (Some (invalid_param_message name expected actual)))"
proof -
  consider "m = GetNodeAddresses" | "m = ExecuteTransaction" | "m = SignMessage"
    | "m = SignQueryAndSend" | "m = SignAndExecuteTransaction" | "m = SignTransaction"
    using assms(1) by (auto simp: schemaFor_def split: if_splits)
  then show ?thesis
  proof cases
    case 1
    with assms show ?thesis by (simp add: schemaFor_def)
  next
    case 2
    with assms show ?thesis
      by (simp add: schemaFor_def parseTry_def method_defs
          parseExecuteTransaction_violation [unfolded method_defs])
  next
    case 3
    with assms show ?thesis
      by (simp add: schemaFor_def parseTry_def method_defs parseSignMessage_violation)
  next
    case 4
    with assms show ?thesis
      by (simp add: schemaFor_def parseTry_def method_defs parseSignQueryAndSend_violation)
  next
    case 5
    with assms show ?thesis
      by (simp add: schemaFor_def parseTry_def method_defs parseSignedArray_violation)
  next
    case 6
    with assms show ?thesis
      by (simp add: schemaFor_def parseTry_def method_defs parseSignedArray_violation)
  qed
qed

lemma show_nat_0: "show_nat 0 = ''0''"
  by code_simp

lemma parseSignMessage_kept:
  "snd (snd (parseSignMessage cdc p)) =
     (if violation [(''signerAccountId'', StringShape), (''message'', StringShape)] p = None
      then (case onString (accountIdFromString cdc) (member p ''signerAccountId'') of
              Inl e \<Rightarrow> None | Inr acc \<Rightarrow> Some acc)
      else None)"
  by (simp add: parseSignMessage_def validateParam_string split: sum.splits)

lemma parseSignQueryAndSend_kept:
  "snd (snd (parseSignQueryAndSend cdc p)) =
     (if violation [(''signerAccountId'', StringShape), (''query'', StringShape)] p = None
      then (case onString (accountIdFromString cdc) (member p ''signerAccountId'') of
              Inl e \<Rightarrow> None | Inr acc \<Rightarrow> Some acc)
      else None)"
  by (simp add: parseSignQueryAndSend_def validateParam_string split: sum.splits)

lemma parseSignedArray_kept:
  "snd (snd (parseSignedArray cdc p)) =
     (if violation [(''signerAccountId'', StringShape), (''transaction'', ArrayOfStrings)] p = None
      then (case onString (accountIdFromString cdc) (member p ''signerAccountId'') of
              Inl e \<Rightarrow> None | Inr acc \<Rightarrow> Some acc)
      else None)"
  by (simp add: parseSignedArray_def validateParam_string validateParam_array
      validateEach_firstNonString parseTransactions_account
      split: sum.splits option.splits)

lemma parseTry_kept: "snd (snd (parseTry cdc m p)) = signerAccountOf cdc m p"
proof -
  consider "m = GetNodeAddresses" | "m = ExecuteTransaction" | "m = SignMessage"
    | "m = SignQueryAndSend" | "m = SignAndExecuteTransaction" | "m = SignTransaction"
    | "m \<notin> set HederaJsonRpcMethod"
    by (auto simp: HederaJsonRpcMethod_def)
  then show ?thesis
  proof cases
    case 1
    then show ?thesis
      by (simp add: parseTry_def signerAccountOf_def parseGetNodeAddresses_def method_defs)
  next
    case 2
    then show ?thesis
      by (simp add: parseTry_def signerAccountOf_def parseExecuteTransaction_account method_defs)
  next
    case 3
    then show ?thesis
      by (simp add: parseTry_def signerAccountOf_def schemaFor_def method_defs
          parseSignMessage_kept)
  next
    case 4
    then show ?thesis
      by (simp add: parseTry_def signerAccountOf_def schemaFor_def method_defs
          parseSignQueryAndSend_kept)
  next
    case 5
    then show ?thesis
      by (simp add: parseTry_def signerAccountOf_def schemaFor_def method_defs
          parseSignedArray_kept)
  next
    case 6
    then show ?thesis
      by (simp add: parseTry_def signerAccountOf_def schemaFor_def method_defs
          parseSignedArray_kept)
  next
    case 7
    then show ?thesis
      by (simp add: parseTry_unknown signerAccountOf_def HederaJsonRpcMethod_def)
  qed
qed

lemma parseSignMessage_payload:
  "fst (parseSignMessage cdc p) = Some e \<Longrightarrow> snd (snd (parseSignMessage cdc p)) = Some a \<Longrightarrow>
     onString (base64StringToMessage cdc) (member p ''message'') = Inl e"
  by (simp add: parseSignMessage_def split: sum.splits)

lemma parseSignQueryAndSend_payload:
  "fst (parseSignQueryAndSend cdc p) = Some e \<Longrightarrow>
   snd (snd (parseSignQueryAndSend cdc p)) = Some a \<Longrightarrow>
     onString (base64StringToQuery cdc) (member p ''query'') = Inl e"
  by (simp add: parseSignQueryAndSend_def split: sum.splits)

lemma parseSignedArray_payload:
  "fst (parseSignedArray cdc p) = Some e \<Longrightarrow> snd (snd (parseSignedArray cdc p)) = Some a \<Longrightarrow>
     mapM (onString (base64StringToTransaction cdc)) (elements (member p ''transaction'')) = Inl e"
  by (simp add: parseSignedArray_def parseTransactions_def split: sum.splits)

lemma parseTry_payload:
  assumes "fst (parseTry cdc m p) = Some e" and "snd (snd (parseTry cdc m p)) = Some a"
  shows "payloadError cdc m p = Some e"
proof -
  from parseTry_account [OF assms(2)]
  consider "m = SignMessage" | "m = SignQueryAndSend" | "m = SignAndExecuteTransaction"
    | "m = SignTransaction"
    by auto
  then show ?thesis
  proof cases
    case 1
    with assms have "onString (base64StringToMessage cdc) (member p ''message'') = Inl e"
      by (simp add: parseTry_def method_defs parseSignMessage_payload)
    with 1 show ?thesis by (simp add: payloadError_def)
  next
    case 2
    with assms have "onString (base64StringToQuery cdc) (member p ''query'') = Inl e"
      by (simp add: parseTry_def method_defs parseSignQueryAndSend_payload)
    with 2 show ?thesis by (simp add: payloadError_def method_defs)
  next
    case 3
    with assms have "mapM (onString (base64StringToTransaction cdc))
                       (elements (member p ''transaction'')) = Inl e"
      by (simp add: parseTry_def method_defs parseSignedArray_payload)
    with 3 show ?thesis by (simp add: payloadError_def method_defs)
  next
    case 4
    with assms have "mapM (onString (base64StringToTransaction cdc))
                       (elements (member p ''transaction'')) = Inl e"
      by (simp add: parseTry_def method_defs parseSignedArray_payload)
    with 4 show ?thesis by (simp add: payloadError_def method_defs)
  qed
qed

lemma badMessage_parseTry:
  "parseTry demoCodec SignMessage
      (JObj [(''signerAccountId'', JStr ''0.0.12345''), (''message'', JNum 5)])
   = (Some (HederaError ''INVALID_PARAMS''
             (Some ''Invalid paramameter value for message, expected string but got number'')),
      None, None)"
  by (simp add: parseTry_def method_defs parseSignMessage_def validateParam_def
      getHederaError_def invalid_param_message_def)

text \<open>
  Claim C2, as amended. With \<open>shouldThrow = false\<close> the parser never throws. When parsing
  the same request with \<open>shouldThrow = true\<close> throws, the descriptor returned carries the
  request's id, topic, method and chainId and no body. Its accountId is absent after an
  unknown method, after a parameter that fails validation and after a signer account id
  that does not parse; it is present, and is the parsed signer account, exactly when
  the parameters passed validation and the signer account parsed, and then the error
  is the one thrown by decoding the payload (the message, the query or a transaction).
\<close>

theorem parse_without_throwing:
  assumes "parseSessionRequest cdc event True = Inl e"
  shows "parseSessionRequest cdc event False =
           Inr \<lparr>d_method = ev_method event, d_chainId = ev_chainId event,
                d_id = ev_id event, d_topic = ev_topic event,
                d_body = None,
                d_accountId = signerAccountOf cdc (ev_method event) (ev_params event)\<rparr> \<and>
         (signerAccountOf cdc (ev_method event) (ev_params event) \<noteq> None \<longrightarrow>
            payloadError cdc (ev_method event) (ev_params event) = Some e)"
proof -
  from assms have err: "fst (parseTry cdc (ev_method event) (ev_params event)) = Some e"
    by (simp add: parseSessionRequest_True split: option.splits)
  then have body: "fst (snd (parseTry cdc (ev_method event) (ev_params event))) = None"
    by (rule parseTry_error_body)
  have "payloadError cdc (ev_method event) (ev_params event) = Some e"
    if "signerAccountOf cdc (ev_method event) (ev_params event) \<noteq> None"
  proof -
    from that obtain a where
      "snd (snd (parseTry cdc (ev_method event) (ev_params event))) = Some a"
      by (auto simp: parseTry_kept)
    with err show ?thesis by (rule parseTry_payload)
  qed
  with body show ?thesis
    by (simp add: parseSessionRequest_False parseTry_kept)
qed

theorem parse_without_throwing_counterexample:
  "parseSessionRequest demoCodec
     \<lparr>ev_id = 1, ev_topic = ''t'', ev_chainId = ''hedera:testnet'',
      ev_method = SignQueryAndSend,
      ev_params = JObj [(''signerAccountId'', JStr ''0.0.12345''), (''query'', JStr ''!!!!'')]\<rparr>
     True = Inl DecodeError \<and>
   parseSessionRequest demoCodec
     \<lparr>ev_id = 1, ev_topic = ''t'', ev_chainId = ''hedera:testnet'',
      ev_method = SignQueryAndSend,
      ev_params = JObj [(''signerAccountId'', JStr ''0.0.12345''), (''query'', JStr ''!!!!'')]\<rparr>
     False =
     Inr \<lparr>d_method = SignQueryAndSend, d_chainId = ''hedera:testnet'', d_id = 1,
          d_topic = ''t'', d_body = None, d_accountId = Some (AccountId ''0.0.12345'')\<rparr>"
  by (simp add: parseSessionRequest_True parseSessionRequest_False badQuery_parseTry)

theorem parse_without_throwing_witness:
  "parseSessionRequest demoCodec
     \<lparr>ev_id = 1, ev_topic = ''t'', ev_chainId = ''hedera:testnet'',
      ev_method = SignQueryAndSend,
      ev_params = JObj [(''signerAccountId'', JStr ''0.0.12345''), (''query'', JStr ''!!!!'')]\<rparr>
     True = Inl DecodeError \<and>
   parseSessionRequest demoCodec
     \<lparr>ev_id = 1, ev_topic = ''t'', ev_chainId = ''hedera:testnet'',
      ev_method = SignQueryAndSend,
      ev_params = JObj [(''signerAccountId'', JStr ''0.0.12345''), (''query'', JStr ''!!!!'')]\<rparr>
     False =
     Inr \<lparr>d_method = SignQueryAndSend, d_chainId = ''hedera:testnet'', d_id = 1,
          d_topic = ''t'', d_body = None, d_accountId = Some (AccountId ''0.0.12345'')\<rparr> \<and>
   payloadError demoCodec SignQueryAndSend
     (JObj [(''signerAccountId'', JStr ''0.0.12345''), (''query'', JStr ''!!!!'')])
     = Some DecodeError \<and>
   parseSessionRequest demoCodec
     \<lparr>ev_id = 2, ev_topic = ''t'', ev_chainId = ''hedera:testnet'',
      ev_method = SignMessage,
      ev_params = JObj [(''signerAccountId'', JStr ''0.0.12345''), (''message'', JNum 5)]\<rparr>
     True =
     Inl (HederaError ''INVALID_PARAMS''
           (Some ''Invalid paramameter value for message, expected string but got number'')) \<and>
   parseSessionRequest demoCodec
     \<lparr>ev_id = 2, ev_topic = ''t'', ev_chainId = ''hedera:testnet'',
      ev_method = SignMessage,
      ev_params = JObj [(''signerAccountId'', JStr ''0.0.12345''), (''message'', JNum 5)]\<rparr>
     False =
     Inr \<lparr>d_method = SignMessage, d_chainId = ''hedera:testnet'', d_id = 2,
          d_topic = ''t'', d_body = None, d_accountId = None\<rparr>"
proof -
  let ?q = "\<lparr>ev_id = 1, ev_topic = ''t'', ev_chainId = ''hedera:testnet'',
      ev_method = SignQueryAndSend,
      ev_params = JObj [(''signerAccountId'', JStr ''0.0.12345''), (''query'', JStr ''!!!!'')]\<rparr>"
  let ?m = "\<lparr>ev_id = 2, ev_topic = ''t'', ev_chainId = ''hedera:testnet'',
      ev_method = SignMessage,
      ev_params = JObj [(''signerAccountId'', JStr ''0.0.12345''), (''message'', JNum 5)]\<rparr>"
  have hq: "parseSessionRequest demoCodec ?q True = Inl DecodeError"
    by (simp add: parseSessionRequest_True badQuery_parseTry)
  have hm: "parseSessionRequest demoCodec ?m True =
     Inl (HederaError ''INVALID_PARAMS''
           (Some ''Invalid paramameter value for message, expected string but got number''))"
    by (simp add: parseSessionRequest_True badMessage_parseTry)
  have kq: "signerAccountOf demoCodec SignQueryAndSend
      (JObj [(''signerAccountId'', JStr ''0.0.12345''), (''query'', JStr ''!!!!'')])
      = Some (AccountId ''0.0.12345'')"
    by (simp add: signerAccountOf_def schemaFor_def method_defs demo_accountId)
  have km: "signerAccountOf demoCodec SignMessage
      (JObj [(''signerAccountId'', JStr ''0.0.12345''), (''message'', JNum 5)]) = None"
    by (simp add: signerAccountOf_def schemaFor_def method_defs)
  show ?thesis
    using hq hm parse_without_throwing [OF hq] parse_without_throwing [OF hm]
    by (simp add: kq km)
qed

text \<open>
  Claim C3, as amended. For a GetNodeAddresses request the parser throws the
  invalid-params error exactly when \<open>params\<close> is truthy; for every falsy value
  (\<open>undefined\<close>, \<open>null\<close>, \<open>false\<close>, \<open>0\<close>, the empty string) it returns a descriptor with
  no body and no accountId.
\<close>

theorem getNodeAddresses_params_truthiness:
  assumes "ev_method event = GetNodeAddresses"
  shows "parseSessionRequest cdc event True =
     (if truthy (ev_params event) then Inl (getHederaError ''INVALID_PARAMS'' None)
      else Inr \<lparr>d_method = GetNodeAddresses, d_chainId = ev_chainId event,
                d_id = ev_id event, d_topic = ev_topic event,
                d_body = None, d_accountId = None\<rparr>)"
  using assms by (simp add: parseSessionRequest_True parseTry_def parseGetNodeAddresses_def)

theorem getNodeAddresses_params_truthiness_witness:
  "parseSessionRequest demoCodec
     \<lparr>ev_id = 1, ev_topic = ''t'', ev_chainId = ''hedera:testnet'',
      ev_method = GetNodeAddresses, ev_params = JNull\<rparr> True
   = Inr \<lparr>d_method = GetNodeAddresses, d_chainId = ''hedera:testnet'', d_id = 1,
          d_topic = ''t'', d_body = None, d_accountId = None\<rparr> \<and>
   parseSessionRequest demoCodec
     \<lparr>ev_id = 1, ev_topic = ''t'', ev_chainId = ''hedera:testnet'',
      ev_method = GetNodeAddresses, ev_params = JObj []\<rparr> True
   = Inl (HederaError ''INVALID_PARAMS'' None)"
  using getNodeAddresses_params_truthiness
          [of "\<lparr>ev_id = 1, ev_topic = ''t'', ev_chainId = ''hedera:testnet'',
                ev_method = GetNodeAddresses, ev_params = JNull\<rparr>" demoCodec]
        getNodeAddresses_params_truthiness
          [of "\<lparr>ev_id = 1, ev_topic = ''t'', ev_chainId = ''hedera:testnet'',
                ev_method = GetNodeAddresses, ev_params = JObj []\<rparr>" demoCodec]
  by (simp add: getHederaError_def)

theorem getNodeAddresses_empty_string_counterexample:
  "JStr '''' \<noteq> JNull \<and> JStr '''' \<noteq> JUndefined \<and>
   parseSessionRequest demoCodec
     \<lparr>ev_id = 1, ev_topic = ''t'', ev_chainId = ''hedera:testnet'',
      ev_method = GetNodeAddresses, ev_params = JStr ''''\<rparr> True
   = Inr \<lparr>d_method = GetNodeAddresses, d_chainId = ''hedera:testnet'', d_id = 1,
          d_topic = ''t'', d_body = None, d_accountId = None\<rparr>"
  by (simp add: parseSessionRequest_True parseTry_def parseGetNodeAddresses_def)

text \<open>
  Claim C6. Whenever a declared field of the request's method has the wrong shape, the
  parser (with \<open>shouldThrow = true\<close>) throws the invalid-params error whose message names
  the first offending field, the expected shape and the actual type as \<open>typeof\<close> reports
  it; for an array element that is not a string the field name carries the zero-based
  index in brackets. The offending field is found by the spec's registry, \<open>schemaFor\<close>
  and \<open>violation\<close>.
\<close>

theorem wrong_shape_names_field:
  assumes "schemaFor (ev_method event) = Some schema"
    and "violation schema (ev_params event) = Some (name, expected, actual)"
  shows "parseSessionRequest cdc event True =
           Inl (HederaError ''INVALID_PARAMS''
                 (Some (''Invalid paramameter value for '' @ name @ '', expected '' @ expected
                          @ '' but got '' @ actual)))"
  using parseTry_violation [OF assms, of cdc]
  by (simp add: parseSessionRequest_True getHederaError_def invalid_param_message_def)

theorem wrong_shape_names_field_witness:
  "schemaFor ExecuteTransaction = Some [(''signedTransaction'', ArrayOfStrings)] \<and>
   violation [(''signedTransaction'', ArrayOfStrings)]
     (JObj [(''signedTransaction'', JArr [JNum 123])])
     = Some (''signedTransaction[0]'', ''string'', ''number'') \<and>
   parseSessionRequest demoCodec
     \<lparr>ev_id = 1, ev_topic = ''t'', ev_chainId = ''hedera:testnet'',
      ev_method = ExecuteTransaction,
      ev_params = JObj [(''signedTransaction'', JArr [JNum 123])]\<rparr> True
   = Inl (HederaError ''INVALID_PARAMS''
           (Some ''Invalid paramameter value for signedTransaction[0], expected string but got number''))"
proof -
  have s: "schemaFor (ev_method \<lparr>ev_id = 1, ev_topic = ''t'', ev_chainId = ''hedera:testnet'',
      ev_method = ExecuteTransaction,
      ev_params = JObj [(''signedTransaction'', JArr [JNum 123])]\<rparr>)
      = Some [(''signedTransaction'', ArrayOfStrings)]"
    by (simp add: schemaFor_def method_defs)
  have v: "violation [(''signedTransaction'', ArrayOfStrings)]
     (ev_params \<lparr>ev_id = 1, ev_topic = ''t'', ev_chainId = ''hedera:testnet'',
      ev_method = ExecuteTransaction,
      ev_params = JObj [(''signedTransaction'', JArr [JNum 123])]\<rparr>)
     = Some (''signedTransaction[0]'', ''string'', ''number'')"
    by (simp add: show_nat_0)
  show ?thesis
    using s v wrong_shape_names_field [OF s v, of demoCodec] by simp
qed

text \<open>
  Claim C7. For a request whose method is not one of the six wire names, the parser
  (with \<open>shouldThrow = true\<close>) throws the invalid-method error. It does so for every
  \<open>params\<close> value and every codec: no parameter is validated and no payload decoded.
\<close>

theorem unknown_method_is_invalid_method:
  assumes "ev_method event \<notin> set HederaJsonRpcMethod"
  shows "parseSessionRequest cdc event True = Inl (getSdkError ''INVALID_METHOD'')"
  using assms by (simp add: parseSessionRequest_True parseTry_unknown)

theorem unknown_method_is_invalid_method_witness:
  "''hedera_signTransactions'' \<notin> set HederaJsonRpcMethod \<and>
   parseSessionRequest demoCodec
     \<lparr>ev_id = 7, ev_topic = ''t'', ev_chainId = ''hedera:testnet'',
      ev_method = ''hedera_signTransactions'',
      ev_params = JObj [(''signerAccountId'', JNum 5)]\<rparr> True
   = Inl (SdkError ''INVALID_METHOD'')"
proof -
  have h: "''hedera_signTransactions'' \<notin> set HederaJsonRpcMethod"
    by (simp add: HederaJsonRpcMethod_def method_defs)
  show ?thesis
    using h unknown_method_is_invalid_method [of "\<lparr>ev_id = 7, ev_topic = ''t'', ev_chainId = ''hedera:testnet'',
      ev_method = ''hedera_signTransactions'',
      ev_params = JObj [(''signerAccountId'', JNum 5)]\<rparr>" demoCodec]
    by (simp add: getSdkError_def)
qed

text \<open>
  Claim C8. For every request, well-formed or not, \<open>rejectSessionRequest\<close> resolves and
  hands exactly one response to the transport: the error response with the request's
  topic and id and the caller's \<open>{code, message}\<close>.
\<close>

theorem rejectSessionRequest_sends_error:
  "rejectSessionRequest cdc event err w =
     (Inr (), w\<lparr>sent := sent w @
        [\<lparr>rp_topic = ev_topic event, rp_response = JsonRpcError (ev_id event) err\<rparr>]\<rparr>)"
  by (simp add: rejectSessionRequest_def parseSessionRequest_False respondSessionRequest_def)

theorem rejectSessionRequest_sends_error_witness:
  "rejectSessionRequest demoCodec
     \<lparr>ev_id = 7, ev_topic = ''t'', ev_chainId = ''hedera:testnet'',
      ev_method = ''hedera_signTransactions'', ev_params = JNum 5\<rparr>
     \<lparr>err_code = 5000, err_message = ''rejected''\<rparr> emptyWorld
   = (Inr (),
      \<lparr>sent = [\<lparr>rp_topic = ''t'',
                 rp_response = JsonRpcError 7 \<lparr>err_code = 5000, err_message = ''rejected''\<rparr>\<rparr>],
       submitted = {#}\<rparr>)"
  using rejectSessionRequest_sends_error
          [of demoCodec "\<lparr>ev_id = 7, ev_topic = ''t'', ev_chainId = ''hedera:testnet'',
                ev_method = ''hedera_signTransactions'', ev_params = JNum 5\<rparr>"
              "\<lparr>err_code = 5000, err_message = ''rejected''\<rparr>" emptyWorld]
  by (simp add: emptyWorld_def)

section \<open>Properties of the handlers\<close>

lemma executeOne_submittable:
  "submittable tx \<Longrightarrow>
     executeOne cdc sg tx w =
       (Inr (resultRecord cdc sg tx), w\<lparr>submitted := add_mset tx (submitted w)\<rparr>)"
  by (auto simp: submittable_def hasIds_def executeOne_def resultRecord_def
      split: option.splits list.splits sum.splits call_outcome.splits)

lemma executeOne_not_submittable:
  "\<not> submittable tx \<Longrightarrow> \<exists>e. executeOne cdc sg tx w = (Inl e, w)"
  by (auto simp: submittable_def hasIds_def executeOne_def
      split: option.splits list.splits sum.splits)

lemma promiseAllMap_Cons:
  "promiseAllMap f (x # xs) w =
     (case fst (f x w) of
        Inl e \<Rightarrow> Inl e
      | Inr y \<Rightarrow>
          (case fst (promiseAllMap f xs (snd (f x w))) of
             Inl e \<Rightarrow> Inl e
           | Inr ys \<Rightarrow> Inr (y # ys)),
      snd (promiseAllMap f xs (snd (f x w))))"
  by (simp split: prod.splits sum.splits)

lemma promiseAllMap_executeOne_world:
  "snd (promiseAllMap (executeOne cdc sg) body w) =
     w\<lparr>submitted := mset (filter submittable body) + submitted w\<rparr>"
proof (induction body arbitrary: w)
  case Nil
  show ?case by simp
next
  case (Cons tx body)
  show ?case
  proof (cases "submittable tx")
    case True
    then show ?thesis
      by (simp only: promiseAllMap_Cons snd_conv Cons.IH executeOne_submittable) simp
  next
    case False
    then obtain e where "executeOne cdc sg tx w = (Inl e, w)"
      using executeOne_not_submittable by blast
    with False show ?thesis
      by (simp only: promiseAllMap_Cons snd_conv Cons.IH) simp
  qed
qed

lemma promiseAllMap_executeOne_ok:
  "list_all submittable body \<Longrightarrow>
     fst (promiseAllMap (executeOne cdc sg) body w) = Inr (map (resultRecord cdc sg) body)"
proof (induction body arbitrary: w)
  case Nil
  show ?case by simp
next
  case (Cons tx body)
  from Cons.prems have tx: "submittable tx" and rest: "list_all submittable body" by simp_all
  show ?case
    by (simp only: promiseAllMap_Cons fst_conv snd_conv executeOne_submittable [OF tx]
        Cons.IH [OF rest]) simp
qed

lemma promiseAllMap_executeOne_fail:
  "\<not> list_all submittable body \<Longrightarrow>
     \<exists>e. fst (promiseAllMap (executeOne cdc sg) body w) = Inl e"
proof (induction body arbitrary: w)
  case Nil
  then show ?case by simp
next
  case (Cons tx body)
  show ?case
  proof (cases "submittable tx")
    case True
    with Cons.prems have "\<not> list_all submittable body" by simp
    from Cons.IH [OF this, of "w\<lparr>submitted := add_mset tx (submitted w)\<rparr>"] obtain e
      where "fst (promiseAllMap (executeOne cdc sg) body
                    (w\<lparr>submitted := add_mset tx (submitted w)\<rparr>)) = Inl e"
      by blast
    then show ?thesis
      by (simp only: promiseAllMap_Cons fst_conv snd_conv executeOne_submittable [OF True]) simp
  next
    case False
    then obtain e where "executeOne cdc sg tx w = (Inl e, w)"
      using executeOne_not_submittable by blast
    then show ?thesis
      by (simp only: promiseAllMap_Cons fst_conv) simp
  qed
qed

lemma promiseAllMap_pure:
  "promiseAllMap (\<lambda>x. pure (f x)) xs w = (mapM f xs, w)"
  by (induction xs arbitrary: w) (simp_all add: pure_def split: sum.splits)

lemma mapM_Inr:
  "mapM f xs = Inr ys \<Longrightarrow>
     length ys = length xs \<and> (\<forall>k<length xs. f (xs ! k) = Inr (ys ! k))"
proof (induction xs arbitrary: ys)
  case Nil
  then show ?case by simp
next
  case (Cons x xs)
  then show ?case
    by (auto simp: nth_Cons split: sum.splits nat.splits)
qed

lemma hedera_executeTransaction_ok:
  assumes "list_all submittable body"
  shows "hedera_executeTransaction cdc sg i topic body w =
     (Inr (),
      \<lparr>sent = sent w @
         [\<lparr>rp_topic = topic,
           rp_response =
             JsonRpcResult i (ExecuteTransactionResult (map (resultRecord cdc sg) body))\<rparr>],
       submitted = submitted w + mset body\<rparr>)"
proof -
  from assms have all: "filter submittable body = body"
    by (simp add: list_all_iff)
  have "promiseAllMap (executeOne cdc sg) body w =
          (Inr (map (resultRecord cdc sg) body), w\<lparr>submitted := mset body + submitted w\<rparr>)"
    using promiseAllMap_executeOne_ok [OF assms, of cdc sg w]
      promiseAllMap_executeOne_world [of cdc sg body w] all
    by (simp add: prod_eq_iff)
  then show ?thesis
    by (simp add: hedera_executeTransaction_def respondSessionRequest_def add.commute)
qed

lemma hedera_executeTransaction_fail:
  assumes "\<not> list_all submittable body"
  shows "\<exists>e. hedera_executeTransaction cdc sg i topic body w =
     (Inl e, w\<lparr>submitted := mset (filter submittable body) + submitted w\<rparr>)"
proof -
  from promiseAllMap_executeOne_fail [OF assms, of cdc sg w] obtain e
    where "fst (promiseAllMap (executeOne cdc sg) body w) = Inl e" by blast
  then have "promiseAllMap (executeOne cdc sg) body w =
          (Inl e, w\<lparr>submitted := mset (filter submittable body) + submitted w\<rparr>)"
    using promiseAllMap_executeOne_world [of cdc sg body w]
    by (simp add: prod_eq_iff)
  then show ?thesis
    by (simp add: hedera_executeTransaction_def)
qed

lemma hedera_signAndExecuteTransaction_ok:
  assumes "mapM (signTransaction sg) body = Inr stxs" and "list_all submittable stxs"
  shows "hedera_signAndExecuteTransaction cdc sg i topic body w =
     (Inr (),
      \<lparr>sent = sent w @
         [\<lparr>rp_topic = topic,
           rp_response =
             JsonRpcResult i (ExecuteTransactionResult (map (resultRecord cdc sg) stxs))\<rparr>],
       submitted = submitted w + mset stxs\<rparr>)"
proof -
  from assms(2) have all: "filter submittable stxs = stxs"
    by (simp add: list_all_iff)
  have "promiseAllMap (executeOne cdc sg) stxs w =
          (Inr (map (resultRecord cdc sg) stxs), w\<lparr>submitted := mset stxs + submitted w\<rparr>)"
    using promiseAllMap_executeOne_ok [OF assms(2), of cdc sg w]
      promiseAllMap_executeOne_world [of cdc sg stxs w] all
    by (simp add: prod_eq_iff)
  then show ?thesis
    using assms(1)
    by (simp add: hedera_signAndExecuteTransaction_def promiseAllMap_pure
        respondSessionRequest_def add.commute)
qed

lemma hedera_signAndExecuteTransaction_sign_fail:
  assumes "mapM (signTransaction sg) body = Inl e"
  shows "hedera_signAndExecuteTransaction cdc sg i topic body w = (Inl e, w)"
  using assms by (simp add: hedera_signAndExecuteTransaction_def promiseAllMap_pure)

lemma hedera_signAndExecuteTransaction_fail:
  assumes "mapM (signTransaction sg) body = Inr stxs" and "\<not> list_all submittable stxs"
  shows "\<exists>e. hedera_signAndExecuteTransaction cdc sg i topic body w =
     (Inl e, w\<lparr>submitted := mset (filter submittable stxs) + submitted w\<rparr>)"
proof -
  from promiseAllMap_executeOne_fail [OF assms(2), of cdc sg w] obtain e
    where "fst (promiseAllMap (executeOne cdc sg) stxs w) = Inl e" by blast
  then have "promiseAllMap (executeOne cdc sg) stxs w =
          (Inl e, w\<lparr>submitted := mset (filter submittable stxs) + submitted w\<rparr>)"
    using promiseAllMap_executeOne_world [of cdc sg stxs w]
    by (simp add: prod_eq_iff)
  then show ?thesis
    using assms(1)
    by (simp add: hedera_signAndExecuteTransaction_def promiseAllMap_pure)
qed

lemma hedera_signTransaction_ok:
  assumes "mapM (signTransaction sg) body = Inr stxs"
  shows "hedera_signTransaction cdc sg i topic body w =
     (Inr (),
      \<lparr>sent = sent w @
         [\<lparr>rp_topic = topic,
           rp_response =
             JsonRpcResult i
               (SignTransactionResult
                  (map (\<lambda>t. signatureMapToBase64 cdc (getSignatures t)) stxs))\<rparr>],
       submitted = submitted w\<rparr>)"
  using assms
  by (simp add: hedera_signTransaction_def promiseAllMap_pure respondSessionRequest_def)

lemma hedera_signTransaction_fail:
  assumes "mapM (signTransaction sg) body = Inl e"
  shows "hedera_signTransaction cdc sg i topic body w = (Inl e, w)"
  using assms by (simp add: hedera_signTransaction_def promiseAllMap_pure)

lemma hasIds_submittable: "\<not> hasIds tx \<Longrightarrow> \<not> submittable tx"
  by (simp add: submittable_def)

lemma precheckCode_resultRecord:
  "r_precheckCode (resultRecord cdc sg tx) = precheckCodeOf (call sg tx)"
  by (cases "call sg tx") (simp_all add: resultRecord_def)

lemma encodeBytes_0: "encodeBytes [0] = ''AA==''"
  by code_simp

lemma encodeBytes_1: "encodeBytes [1] = ''AQ==''"
  by code_simp

lemma encodeBytes_2: "encodeBytes [2] = ''Ag==''"
  by code_simp

lemma submittable_demo: "submittable (demoTransaction bs)"
  by (simp add: submittable_def hasIds_def demoTransaction_def)

lemma resultRecord_demo:
  "resultRecord demoCodec demoSigner (demoTransaction (b # bs)) =
     \<lparr>r_transactionId = ''0.0.12345@1700000000.0'', r_nodeId = ''0.0.3'',
      r_transactionHash = encodeBytes (b # bs),
      r_precheckCode = (if b = 0 then 0 else if b = 1 then 7 else 0)\<rparr>"
  by (simp add: resultRecord_def demoCodec_def demoSigner_def demoTransaction_def)

lemma call_demo_2: "call demoSigner (demoTransaction [2]) = Rejected (OtherError ''network'')"
  by (simp add: demoSigner_def demoTransaction_def)

lemma call_demo_1: "call demoSigner (demoTransaction [1]) = PrecheckStatusError 7"
  by (simp add: demoSigner_def demoTransaction_def)

lemma list_of_two: "length xs = Suc (Suc 0) \<Longrightarrow> xs = [xs ! 0, xs ! Suc 0]"
  by (cases xs; cases "tl xs") auto

lemma mapM_demo_sign:
  "mapM (signTransaction demoSigner) [demoTransaction [0], demoTransaction [1]] =
     Inr [demoTransaction [0]\<lparr>getSignatures := [([9], [1, 2, 3])]\<rparr>,
          demoTransaction [1]\<lparr>getSignatures := [([9], [1, 2, 3])]\<rparr>]"
  by (simp add: demoSigner_def demoTransaction_def)

lemma encodeBytes_9123: "encodeBytes [9, 1, 2, 3] = ''CQECAw==''"
  by code_simp

lemma encodeBytes_12: "encodeBytes [1, 2] = ''AQI=''"
  by code_simp

lemma signatureMap_demo:
  "signatureMapToBase64 demoCodec [([9], [1, 2, 3])] = ''CQECAw==''"
  by (simp add: demoCodec_def encodeBytes_9123 del: encodeBytes.simps)

lemma sign_demo:
  "sign demoSigner [[2], [3]] =
     Inr (\<lparr>sig_publicKey = [9], sig_signature = [1, 2], sig_accountId = AccountId ''0.0.12345''\<rparr>
          # [\<lparr>sig_publicKey = [9], sig_signature = [1, 3],
              sig_accountId = AccountId ''0.0.12345''\<rparr>])"
  by (simp add: demoSigner_def)

lemma demoSigner_keeps_ids:
  "\<forall>t t'. signTransaction demoSigner t = Inr t' \<longrightarrow>
     transactionId t' = transactionId t \<and> nodeAccountIds t' = nodeAccountIds t"
  by (auto simp: demoSigner_def)

text \<open>
  Claim C1, as amended. For the ExecuteTransaction and SignAndExecuteTransaction
  handlers, on a batch whose transactions all reach \<open>signer.call\<close>, the handler resolves
  and sends its response whatever the submissions do: a submission rejected with the
  ledger's precheck error puts the error's status code into that transaction's
  \<open>precheckCode\<close>; a submission that fails with any other error is caught as well and
  leaves \<open>precheckCode\<close> at 0.
\<close>

theorem submission_errors_become_codes:
  "(list_all submittable body \<longrightarrow>
      hedera_executeTransaction cdc sg i topic body w =
        (Inr (),
         \<lparr>sent = sent w @
            [\<lparr>rp_topic = topic,
              rp_response =
                JsonRpcResult i (ExecuteTransactionResult (map (resultRecord cdc sg) body))\<rparr>],
          submitted = submitted w + mset body\<rparr>)) \<and>
   (mapM (signTransaction sg) body = Inr stxs \<and> list_all submittable stxs \<longrightarrow>
      hedera_signAndExecuteTransaction cdc sg i topic body w =
        (Inr (),
         \<lparr>sent = sent w @
            [\<lparr>rp_topic = topic,
              rp_response =
                JsonRpcResult i (ExecuteTransactionResult (map (resultRecord cdc sg) stxs))\<rparr>],
          submitted = submitted w + mset stxs\<rparr>)) \<and>
   (call sg tx = PrecheckStatusError c \<longrightarrow> r_precheckCode (resultRecord cdc sg tx) = c) \<and>
   (call sg tx = Rejected e \<longrightarrow> r_precheckCode (resultRecord cdc sg tx) = 0)"
  by (simp add: hedera_executeTransaction_ok hedera_signAndExecuteTransaction_ok
      precheckCode_resultRecord)

theorem submission_errors_become_codes_witness:
  "list_all submittable [demoTransaction [1], demoTransaction [2]] \<and>
   call demoSigner (demoTransaction [1]) = PrecheckStatusError 7 \<and>
   call demoSigner (demoTransaction [2]) = Rejected (OtherError ''network'') \<and>
   hedera_executeTransaction demoCodec demoSigner 1 ''t''
       [demoTransaction [1], demoTransaction [2]] emptyWorld =
     (Inr (),
      \<lparr>sent =
         [\<lparr>rp_topic = ''t'',
           rp_response =
             JsonRpcResult 1
               (ExecuteTransactionResult
                  [\<lparr>r_transactionId = ''0.0.12345@1700000000.0'', r_nodeId = ''0.0.3'',
                    r_transactionHash = ''AQ=='', r_precheckCode = 7\<rparr>,
                   \<lparr>r_transactionId = ''0.0.12345@1700000000.0'', r_nodeId = ''0.0.3'',
                    r_transactionHash = ''Ag=='', r_precheckCode = 0\<rparr>])\<rparr>],
       submitted = {#demoTransaction [1], demoTransaction [2]#}\<rparr>)"
proof -
  have h: "list_all submittable [demoTransaction [1], demoTransaction [2]]"
    by (simp add: submittable_demo)
  show ?thesis
    using h submission_errors_become_codes
      [of "[demoTransaction [1], demoTransaction [2]]" demoCodec demoSigner 1 "''t''" emptyWorld]
    by (simp add: call_demo_1 call_demo_2 resultRecord_demo encodeBytes_1 encodeBytes_2
        emptyWorld_def del: encodeBytes.simps)
qed

theorem submission_errors_become_codes_counterexample:
  "call demoSigner (demoTransaction [2]) = Rejected (OtherError ''network'') \<and>
   hedera_executeTransaction demoCodec demoSigner 1 ''t'' [demoTransaction [2]] emptyWorld =
     (Inr (),
      \<lparr>sent =
         [\<lparr>rp_topic = ''t'',
           rp_response =
             JsonRpcResult 1
               (ExecuteTransactionResult
                  [\<lparr>r_transactionId = ''0.0.12345@1700000000.0'', r_nodeId = ''0.0.3'',
                    r_transactionHash = ''Ag=='', r_precheckCode = 0\<rparr>])\<rparr>],
       submitted = {#demoTransaction [2]#}\<rparr>)"
proof -
  have "list_all submittable [demoTransaction [2]]"
    by (simp add: submittable_demo)
  from hedera_executeTransaction_ok [OF this, of demoCodec demoSigner 1 "''t''" emptyWorld]
  show ?thesis
    by (simp add: call_demo_2 resultRecord_demo encodeBytes_2 emptyWorld_def
        del: encodeBytes.simps)
qed

text \<open>
  Claim C4. The ExecuteTransaction handler resolves exactly when every transaction of
  the batch reaches \<open>signer.call\<close>, and then it sends one response whose result array has
  one record per transaction, in input order, the record of a transaction whose
  submission resolved carrying \<open>precheckCode\<close> 0. The same holds for
  SignAndExecuteTransaction on the signed transactions, once the signer has signed each
  one. The SignTransaction handler, once the signer has signed each transaction, sends
  one base64 signature map per transaction, in input order, and submits nothing.
\<close>

theorem batch_results_in_order:
  "((fst (hedera_executeTransaction cdc sg i topic body w) = Inr ()) = list_all submittable body) \<and>
   (list_all submittable body \<longrightarrow>
      (\<exists>rs. hedera_executeTransaction cdc sg i topic body w =
              (Inr (),
               \<lparr>sent = sent w @
                  [\<lparr>rp_topic = topic,
                    rp_response = JsonRpcResult i (ExecuteTransactionResult rs)\<rparr>],
                submitted = submitted w + mset body\<rparr>) \<and>
            length rs = length body \<and>
            (\<forall>k<length body.
               rs ! k = resultRecord cdc sg (body ! k) \<and>
               (call sg (body ! k) = Resolved \<longrightarrow> r_precheckCode (rs ! k) = 0)))) \<and>
   (mapM (signTransaction sg) body = Inr stxs \<and> list_all submittable stxs \<longrightarrow>
      (\<exists>rs. hedera_signAndExecuteTransaction cdc sg i topic body w =
              (Inr (),
               \<lparr>sent = sent w @
                  [\<lparr>rp_topic = topic,
                    rp_response = JsonRpcResult i (ExecuteTransactionResult rs)\<rparr>],
                submitted = submitted w + mset stxs\<rparr>) \<and>
            length rs = length body \<and>
            (\<forall>k<length body.
               signTransaction sg (body ! k) = Inr (stxs ! k) \<and>
               rs ! k = resultRecord cdc sg (stxs ! k) \<and>
               (call sg (stxs ! k) = Resolved \<longrightarrow> r_precheckCode (rs ! k) = 0)))) \<and>
   (mapM (signTransaction sg) body = Inr stxs \<longrightarrow>
      (\<exists>ms. hedera_signTransaction cdc sg i topic body w =
              (Inr (),
               \<lparr>sent = sent w @
                  [\<lparr>rp_topic = topic,
                    rp_response = JsonRpcResult i (SignTransactionResult ms)\<rparr>],
                submitted = submitted w\<rparr>) \<and>
            length ms = length body \<and>
            (\<forall>k<length body.
               signTransaction sg (body ! k) = Inr (stxs ! k) \<and>
               ms ! k = signatureMapToBase64 cdc (getSignatures (stxs ! k)))))"
proof (intro conjI impI)
  show "(fst (hedera_executeTransaction cdc sg i topic body w) = Inr ()) = list_all submittable body"
  proof (cases "list_all submittable body")
    case True
    then show ?thesis by (simp add: hedera_executeTransaction_ok)
  next
    case False
    from hedera_executeTransaction_fail [OF this, of cdc sg i topic w] False
    show ?thesis by auto
  qed
next
  assume all: "list_all submittable body"
  show "\<exists>rs. hedera_executeTransaction cdc sg i topic body w =
              (Inr (),
               \<lparr>sent = sent w @
                  [\<lparr>rp_topic = topic,
                    rp_response = JsonRpcResult i (ExecuteTransactionResult rs)\<rparr>],
                submitted = submitted w + mset body\<rparr>) \<and>
            length rs = length body \<and>
            (\<forall>k<length body.
               rs ! k = resultRecord cdc sg (body ! k) \<and>
               (call sg (body ! k) = Resolved \<longrightarrow> r_precheckCode (rs ! k) = 0))"
    by (rule exI [of _ "map (resultRecord cdc sg) body"])
      (simp add: hedera_executeTransaction_ok [OF all] precheckCode_resultRecord)
next
  assume h: "mapM (signTransaction sg) body = Inr stxs \<and> list_all submittable stxs"
  then have len: "length stxs = length body"
    and nth: "\<forall>k<length body. signTransaction sg (body ! k) = Inr (stxs ! k)"
    using mapM_Inr [of "signTransaction sg" body stxs] by simp_all
  show "\<exists>rs. hedera_signAndExecuteTransaction cdc sg i topic body w =
              (Inr (),
               \<lparr>sent = sent w @
                  [\<lparr>rp_topic = topic,
                    rp_response = JsonRpcResult i (ExecuteTransactionResult rs)\<rparr>],
                submitted = submitted w + mset stxs\<rparr>) \<and>
            length rs = length body \<and>
            (\<forall>k<length body.
               signTransaction sg (body ! k) = Inr (stxs ! k) \<and>
               rs ! k = resultRecord cdc sg (stxs ! k) \<and>
               (call sg (stxs ! k) = Resolved \<longrightarrow> r_precheckCode (rs ! k) = 0))"
    using h len nth
    by (intro exI [of _ "map (resultRecord cdc sg) stxs"])
      (simp add: hedera_signAndExecuteTransaction_ok precheckCode_resultRecord)
next
  assume h: "mapM (signTransaction sg) body = Inr stxs"
  then have len: "length stxs = length body"
    and nth: "\<forall>k<length body. signTransaction sg (body ! k) = Inr (stxs ! k)"
    using mapM_Inr [of "signTransaction sg" body stxs] by simp_all
  show "\<exists>ms. hedera_signTransaction cdc sg i topic body w =
              (Inr (),
               \<lparr>sent = sent w @
                  [\<lparr>rp_topic = topic,
                    rp_response = JsonRpcResult i (SignTransactionResult ms)\<rparr>],
                submitted = submitted w\<rparr>) \<and>
            length ms = length body \<and>
            (\<forall>k<length body.
               signTransaction sg (body ! k) = Inr (stxs ! k) \<and>
               ms ! k = signatureMapToBase64 cdc (getSignatures (stxs ! k)))"
    using h len nth
    by (intro exI [of _ "map (\<lambda>t. signatureMapToBase64 cdc (getSignatures t)) stxs"])
      (simp add: hedera_signTransaction_ok)
qed

theorem batch_results_in_order_witness:
  "list_all submittable [demoTransaction [0], demoTransaction [1]] \<and>
   hedera_executeTransaction demoCodec demoSigner 1 ''t''
       [demoTransaction [0], demoTransaction [1]] emptyWorld =
     (Inr (),
      \<lparr>sent =
         [\<lparr>rp_topic = ''t'',
           rp_response =
             JsonRpcResult 1
               (ExecuteTransactionResult
                  [\<lparr>r_transactionId = ''0.0.12345@1700000000.0'', r_nodeId = ''0.0.3'',
                    r_transactionHash = ''AA=='', r_precheckCode = 0\<rparr>,
                   \<lparr>r_transactionId = ''0.0.12345@1700000000.0'', r_nodeId = ''0.0.3'',
                    r_transactionHash = ''AQ=='', r_precheckCode = 7\<rparr>])\<rparr>],
       submitted = {#demoTransaction [0], demoTransaction [1]#}\<rparr>) \<and>
   hedera_signTransaction demoCodec demoSigner 1 ''t''
       [demoTransaction [0], demoTransaction [1]] emptyWorld =
     (Inr (),
      \<lparr>sent =
         [\<lparr>rp_topic = ''t'',
           rp_response = JsonRpcResult 1 (SignTransactionResult [''CQECAw=='', ''CQECAw==''])\<rparr>],
       submitted = {#}\<rparr>)"
proof -
  let ?B = "[demoTransaction [0], demoTransaction [1]]"
  let ?S = "[demoTransaction [0]\<lparr>getSignatures := [([9], [1, 2, 3])]\<rparr>,
             demoTransaction [1]\<lparr>getSignatures := [([9], [1, 2, 3])]\<rparr>]"
  note T = batch_results_in_order [of demoCodec demoSigner 1 "''t''" ?B emptyWorld ?S]
  have all: "list_all submittable ?B"
    by (simp add: submittable_demo)
  from T all obtain rs where
    ex: "hedera_executeTransaction demoCodec demoSigner 1 ''t'' ?B emptyWorld =
           (Inr (),
            \<lparr>sent = sent emptyWorld @
               [\<lparr>rp_topic = ''t'',
                 rp_response = JsonRpcResult 1 (ExecuteTransactionResult rs)\<rparr>],
             submitted = submitted emptyWorld + mset ?B\<rparr>)"
    and len: "length rs = length ?B"
    and nth: "\<forall>k<length ?B. rs ! k = resultRecord demoCodec demoSigner (?B ! k)"
    by blast
  from len have "rs = [rs ! 0, rs ! Suc 0]" by (simp add: list_of_two)
  with nth have rs: "rs = [resultRecord demoCodec demoSigner (demoTransaction [0]),
                           resultRecord demoCodec demoSigner (demoTransaction [1])]"
    by simp
  from T mapM_demo_sign obtain ms where
    st: "hedera_signTransaction demoCodec demoSigner 1 ''t'' ?B emptyWorld =
           (Inr (),
            \<lparr>sent = sent emptyWorld @
               [\<lparr>rp_topic = ''t'',
                 rp_response = JsonRpcResult 1 (SignTransactionResult ms)\<rparr>],
             submitted = submitted emptyWorld\<rparr>)"
    and mlen: "length ms = length ?B"
    and mnth: "\<forall>k<length ?B. ms ! k = signatureMapToBase64 demoCodec (getSignatures (?S ! k))"
    by blast
  from mlen have "ms = [ms ! 0, ms ! Suc 0]" by (simp add: list_of_two)
  with mnth have ms: "ms = [''CQECAw=='', ''CQECAw=='']"
    by (simp add: signatureMap_demo)
  show ?thesis
    using all ex st
    by (simp add: rs ms resultRecord_demo encodeBytes_0 encodeBytes_1 emptyWorld_def
        del: encodeBytes.simps)
qed

text \<open>
  Claim C5. When the signer returns a signature collection, the SignMessage handler
  responds with the base64 text of the signature bytes of its first entry alone; the
  other entries do not appear in the response.
\<close>

theorem signMessage_first_signature:
  assumes "sign sg body = Inr (entry # others)"
  shows "hedera_signMessage cdc sg i topic body w =
     (Inr (),
      \<lparr>sent = sent w @
         [\<lparr>rp_topic = topic,
           rp_response =
             JsonRpcResult i
               (SignMessageResult (Uint8ArrayToBase64String cdc (sig_signature entry)))\<rparr>],
       submitted = submitted w\<rparr>)"
  using assms by (simp add: hedera_signMessage_def respondSessionRequest_def)

theorem signMessage_first_signature_witness:
  "sign demoSigner [[2], [3]] =
     Inr (\<lparr>sig_publicKey = [9], sig_signature = [1, 2], sig_accountId = AccountId ''0.0.12345''\<rparr>
          # [\<lparr>sig_publicKey = [9], sig_signature = [1, 3],
              sig_accountId = AccountId ''0.0.12345''\<rparr>]) \<and>
   hedera_signMessage demoCodec demoSigner 1 ''t'' [[2], [3]] emptyWorld =
     (Inr (),
      \<lparr>sent = [\<lparr>rp_topic = ''t'', rp_response = JsonRpcResult 1 (SignMessageResult ''AQI='')\<rparr>],
       submitted = {#}\<rparr>)"
  using sign_demo signMessage_first_signature [OF sign_demo, of demoCodec 1 "''t''" emptyWorld]
  by (simp add: demoCodec_def encodeBytes_12 emptyWorld_def del: encodeBytes.simps)

text \<open>
  Claim C10. A transaction of the batch whose \<open>transactionId\<close> is unset, or whose
  \<open>nodeAccountIds\<close> is unset or empty, makes the ExecuteTransaction handler throw; no
  response is sent and that transaction is not submitted. The same transaction makes
  the SignAndExecuteTransaction handler throw without a response, given that signing
  leaves the two members as they are.
\<close>

theorem missing_ids_throw_before_response:
  "(tx \<in> set body \<and> \<not> hasIds tx \<longrightarrow>
      (\<exists>e w'. hedera_executeTransaction cdc sg i topic body w = (Inl e, w') \<and>
               sent w' = sent w \<and> count (submitted w') tx = count (submitted w) tx)) \<and>
   (tx \<in> set body \<and> \<not> hasIds tx \<and>
    (\<forall>t t'. signTransaction sg t = Inr t' \<longrightarrow>
              transactionId t' = transactionId t \<and> nodeAccountIds t' = nodeAccountIds t) \<longrightarrow>
      (\<exists>e w'. hedera_signAndExecuteTransaction cdc sg i topic body w = (Inl e, w') \<and>
               sent w' = sent w))"
proof (intro conjI impI)
  assume h: "tx \<in> set body \<and> \<not> hasIds tx"
  then have ns: "\<not> submittable tx" by (simp add: hasIds_submittable)
  with h have "\<not> list_all submittable body" by (auto simp: list_all_iff)
  from hedera_executeTransaction_fail [OF this, of cdc sg i topic w] ns
  show "\<exists>e w'. hedera_executeTransaction cdc sg i topic body w = (Inl e, w') \<and>
               sent w' = sent w \<and> count (submitted w') tx = count (submitted w) tx"
    by auto
next
  assume h: "tx \<in> set body \<and> \<not> hasIds tx \<and>
    (\<forall>t t'. signTransaction sg t = Inr t' \<longrightarrow>
              transactionId t' = transactionId t \<and> nodeAccountIds t' = nodeAccountIds t)"
  show "\<exists>e w'. hedera_signAndExecuteTransaction cdc sg i topic body w = (Inl e, w') \<and>
               sent w' = sent w"
  proof (cases "mapM (signTransaction sg) body")
    case (Inl e)
    then show ?thesis by (simp add: hedera_signAndExecuteTransaction_sign_fail)
  next
    case (Inr stxs)
    from h obtain k where k: "k < length body" and tx: "body ! k = tx"
      by (auto simp: in_set_conv_nth)
    from mapM_Inr [OF Inr] k tx have len: "length stxs = length body"
      and s: "signTransaction sg tx = Inr (stxs ! k)" by auto
    from h s have "hasIds (stxs ! k) = hasIds tx"
      by (simp add: hasIds_def)
    with h have "\<not> submittable (stxs ! k)" by (simp add: hasIds_submittable)
    moreover from k len have "stxs ! k \<in> set stxs" by simp
    ultimately have "\<not> list_all submittable stxs" by (auto simp: list_all_iff)
    from hedera_signAndExecuteTransaction_fail [OF Inr this, of cdc i topic w]
    show ?thesis by auto
  qed
qed

theorem missing_ids_throw_before_response_witness:
  "demoTransaction [0]\<lparr>transactionId := None\<rparr>
     \<in> set [demoTransaction [0], demoTransaction [0]\<lparr>transactionId := None\<rparr>] \<and>
   \<not> hasIds (demoTransaction [0]\<lparr>transactionId := None\<rparr>) \<and>
   (\<exists>e w'. hedera_executeTransaction demoCodec demoSigner 1 ''t''
              [demoTransaction [0], demoTransaction [0]\<lparr>transactionId := None\<rparr>] emptyWorld
              = (Inl e, w') \<and>
            sent w' = [] \<and>
            count (submitted w') (demoTransaction [0]\<lparr>transactionId := None\<rparr>) = 0) \<and>
   (\<exists>e w'. hedera_signAndExecuteTransaction demoCodec demoSigner 1 ''t''
              [demoTransaction [0], demoTransaction [0]\<lparr>transactionId := None\<rparr>] emptyWorld
              = (Inl e, w') \<and>
            sent w' = [])"
proof -
  let ?bad = "demoTransaction [0]\<lparr>transactionId := None\<rparr>"
  let ?B = "[demoTransaction [0], ?bad]"
  have a: "?bad \<in> set ?B" by simp
  have b: "\<not> hasIds ?bad" by (simp add: hasIds_def)
  show ?thesis
    using a b demoSigner_keeps_ids
      missing_ids_throw_before_response [of ?bad ?B demoCodec demoSigner 1 "''t''" emptyWorld]
    by (simp add: emptyWorld_def)
qed

section \<open>Properties of the codec\<close>



lemma charSextet_sextetChar: "n < 64 \<Longrightarrow> charSextet (sextetChar n) = Some n"
  by (auto simp: sextetChar_def charSextet_def Let_def)

lemma charSextet_pad: "charSextet CHR ''='' = None"
  by (simp add: charSextet_def)

lemma unat_byte: "unat (a :: 8 word) < 256"
  using unsigned_less [of a, where ?'a = nat] by simp


lemma byte_of_unat: "(of_nat (unat a) :: 8 word) = a"
  by simp

lemma sextet_less:
  "sextet1 a < 64" "sextet2 a b < 64" "sextet3 b c < 64" "sextet4 c < 64"
proof -
  have a: "unat a < 256" and b: "unat b < 256" and c: "unat c < 256"
    by (rule unat_byte)+
  show "sextet1 a < 64" using a by (simp add: sextet1_def)
  have "unat a mod 4 < 4" by simp
  moreover have "unat b div 16 < 16" using b by simp
  ultimately show "sextet2 a b < 64" unfolding sextet2_def by linarith
  have "unat b mod 16 < 16" by simp
  moreover have "unat c div 64 < 4" using c by simp
  ultimately show "sextet3 b c < 64" unfolding sextet3_def by linarith
  show "sextet4 c < 64" by (simp add: sextet4_def)
qed

lemma padding_bits_zero: "sextet2 a 0 mod 16 = 0" "sextet3 b 0 mod 4 = 0"
  by (simp_all add: sextet2_def sextet3_def)

lemma byte1_sextets: "byte1 (sextet1 a) (sextet2 a b) = a"
proof -
  have "unat b div 16 < 16" using unat_byte [of b] by simp
  then have "(unat a mod 4 * 16 + unat b div 16) div 16 = unat a mod 4" by simp
  then have "unat a div 4 * 4 + (unat a mod 4 * 16 + unat b div 16) div 16 = unat a" by simp
  then show ?thesis
    by (simp only: byte1_def sextet1_def sextet2_def byte_of_unat)
qed

lemma byte2_sextets: "byte2 (sextet2 a b) (sextet3 b c) = b"
proof -
  have "unat b div 16 < 16" using unat_byte [of b] by simp
  then have x: "(unat a mod 4 * 16 + unat b div 16) mod 16 = unat b div 16" by simp
  have "unat c div 64 < 4" using unat_byte [of c] by simp
  then have y: "(unat b mod 16 * 4 + unat c div 64) div 4 = unat b mod 16" by simp
  have "unat b div 16 * 16 + unat b mod 16 = unat b" by simp
  then show ?thesis
    by (simp only: byte2_def sextet2_def sextet3_def x y byte_of_unat)
qed

lemma byte3_sextets: "byte3 (sextet3 b c) (sextet4 c) = c"
proof -
  have "unat c div 64 < 4" using unat_byte [of c] by simp
  then have x: "(unat b mod 16 * 4 + unat c div 64) mod 4 = unat c div 64" by simp
  have "unat c div 64 * 64 + unat c mod 64 = unat c" by simp
  then show ?thesis
    by (simp only: byte3_def sextet3_def sextet4_def x byte_of_unat)
qed






lemma sextetChar_not_pad: "sextetChar n \<noteq> CHR ''=''"
proof (cases "n < 64")
  case True
  from charSextet_sextetChar [OF this] charSextet_pad show ?thesis by auto
next
  case False
  then show ?thesis by (simp add: sextetChar_def)
qed

lemma decodeMessage_encodeBytes: "decodeMessage (encodeBytes bs) = Inr bs"
proof (induction bs rule: encodeBytes.induct)
  case (1 a b c rest)
  then show ?case
    by (simp add: sextetChar_not_pad charSextet_sextetChar sextet_less
        byte1_sextets byte2_sextets byte3_sextets)
next
  case (2 a b)
  show ?case
    by (simp add: decodePadded_def sextetChar_not_pad charSextet_sextetChar sextet_less
        padding_bits_zero byte1_sextets byte2_sextets)
next
  case (3 a)
  show ?case
    by (simp add: decodePadded_def sextetChar_not_pad charSextet_sextetChar sextet_less
        padding_bits_zero byte1_sextets)
next
  case 4
  show ?case by simp
qed





lemma decodeMessage_noncanonical: "decodeMessage ''SGl='' = Inl DecodeError"
  by code_simp

lemma decodeObject_encodeObject:
  "decodeObject fromBytes (encodeObject toBytes t) = fromBytes (toBytes t)"
  by (simp add: decodeObject_def encodeObject_def decodeMessage_encodeBytes)


lemma demo_query_round_trip:
  "decodeObject (\<lambda>bs. if bs = [] then Inl DecodeError else Inr \<lparr>queryBytes = bs\<rparr>)
     (encodeObject queryBytes \<lparr>queryBytes = [72, 105]\<rparr>) = Inr \<lparr>queryBytes = [72, 105]\<rparr>"
  by (simp add: decodeObject_encodeObject)



end
